theory Spec2Isabelle
  imports Main "HOL-Library.Word"
begin

unbundle bit_operations_syntax

section \<open>The I2C character-LCD driver (I2C\_LCD.c) as a state transformer\<close>

text \<open>
  The driver keeps seven file-scope variables (I2C\_LCD.h, lines 252-265) and talks to
  the display only through the I2C master functions declared in I2C.h and the delay
  macros of the C library. The model threads one record through every function: the
  seven variables, the sequence of calls made to the bus and to the delay macros so
  far, and the number of start conditions the bus has issued.

  All driver variables are \<open>uint8_t\<close>, modelled as \<open>8 word\<close>. C promotes them to
  \<open>int\<close> inside an expression and truncates the result to 8 bits when it is passed
  as a \<open>uint8_t\<close> argument; for \<open>&\<close>, \<open>|\<close>, \<open>~\<close>, \<open><<\<close>, \<open>+\<close> and \<open>-\<close> the
  truncated result is the 8-bit word operation. The array subscript \<open>row-1\<close> is not
  truncated, so it is computed on \<open>int\<close>.
\<close>

type_synonym u8 = "8 word"

subsection \<open>Constants of I2C\_LCD.h and I2C.h\<close>

abbreviation (input) I2C_WRITE :: u8 where "I2C_WRITE \<equiv> 0"
abbreviation (input) I2C_LCD_ADDRESS :: u8 where "I2C_LCD_ADDRESS \<equiv> 0x4E"

abbreviation (input) I2C_LCD_RS :: u8 where "I2C_LCD_RS \<equiv> 0x01"
abbreviation (input) I2C_LCD_RW :: u8 where "I2C_LCD_RW \<equiv> 0x02"
abbreviation (input) I2C_LCD_E :: u8 where "I2C_LCD_E \<equiv> 0x04"
abbreviation (input) I2C_LCD_BL :: u8 where "I2C_LCD_BL \<equiv> 0x08"

abbreviation (input) I2C_LCD_CLEARDISPLAY :: u8 where "I2C_LCD_CLEARDISPLAY \<equiv> 0x01"
abbreviation (input) I2C_LCD_ENTRYMODESET :: u8 where "I2C_LCD_ENTRYMODESET \<equiv> 0x04"
abbreviation (input) I2C_LCD_DISPLAYCONTROL :: u8 where "I2C_LCD_DISPLAYCONTROL \<equiv> 0x08"
abbreviation (input) I2C_LCD_CURSORSHIFT :: u8 where "I2C_LCD_CURSORSHIFT \<equiv> 0x10"
abbreviation (input) I2C_LCD_FUNCTIONSET :: u8 where "I2C_LCD_FUNCTIONSET \<equiv> 0x20"
abbreviation (input) I2C_LCD_SETCGRAMADDR :: u8 where "I2C_LCD_SETCGRAMADDR \<equiv> 0x40"
abbreviation (input) I2C_LCD_SETDDRAMADDR :: u8 where "I2C_LCD_SETDDRAMADDR \<equiv> 0x80"

abbreviation (input) I2C_LCD_ENTRYLEFT :: u8 where "I2C_LCD_ENTRYLEFT \<equiv> 0x02"
abbreviation (input) I2C_LCD_ENTRYSHIFTINCREMENT :: u8 where "I2C_LCD_ENTRYSHIFTINCREMENT \<equiv> 0x01"
abbreviation (input) I2C_LCD_ENTRYSHIFTDECREMENT :: u8 where "I2C_LCD_ENTRYSHIFTDECREMENT \<equiv> 0x00"

abbreviation (input) I2C_LCD_DISPLAY :: u8 where "I2C_LCD_DISPLAY \<equiv> 0x04"
abbreviation (input) I2C_LCD_CURSOR :: u8 where "I2C_LCD_CURSOR \<equiv> 0x02"
abbreviation (input) I2C_LCD_BLINK :: u8 where "I2C_LCD_BLINK \<equiv> 0x01"

abbreviation (input) I2C_LCD_DISPLAYMOVE :: u8 where "I2C_LCD_DISPLAYMOVE \<equiv> 0x08"
abbreviation (input) I2C_LCD_MOVERIGHT :: u8 where "I2C_LCD_MOVERIGHT \<equiv> 0x04"
abbreviation (input) I2C_LCD_MOVELEFT :: u8 where "I2C_LCD_MOVELEFT \<equiv> 0x00"

abbreviation (input) I2C_LCD_8BITMODE :: u8 where "I2C_LCD_8BITMODE \<equiv> 0x10"
abbreviation (input) I2C_LCD_4BITMODE :: u8 where "I2C_LCD_4BITMODE \<equiv> 0x00"
abbreviation (input) I2C_LCD_2LINE :: u8 where "I2C_LCD_2LINE \<equiv> 0x08"

abbreviation (input) I2C_LCD_ON :: u8 where "I2C_LCD_ON \<equiv> 0xFF"
abbreviation (input) I2C_LCD_OFF :: u8 where "I2C_LCD_OFF \<equiv> 0x00"

subsection \<open>State\<close>

text \<open>What the driver asks of its collaborators, in the order of the calls.\<close>

datatype event =
    StartWait u8
  | Write u8
  | Stop
  | Delay_us nat
  | Delay_ms nat

text \<open>
  \<open>uint8_t row_offsets[4]\<close>: exactly four bytes. A subscript outside 0..3 is
  undefined behaviour in C; the model stops there with a fault that carries the
  subscript.
\<close>

datatype arr4 = Arr4 u8 u8 u8 u8

datatype fault = OutOfBounds int

fun arr4_get :: "arr4 \<Rightarrow> int \<Rightarrow> fault + u8" where
  "arr4_get (Arr4 a b c d) i =
     (if i = 0 then Inr a
      else if i = 1 then Inr b
      else if i = 2 then Inr c
      else if i = 3 then Inr d
      else Inl (OutOfBounds i))"

record lcd =
  backlight :: u8
  numlines :: u8
  numcols :: u8
  displayfunction :: u8
  displaycontrol :: u8
  displaymode :: u8
  row_offsets :: arr4
  trace :: "event list"
  attempts :: nat

text \<open>The seven driver variables, without the bus log.\<close>

definition globals :: "lcd \<Rightarrow> u8 \<times> u8 \<times> u8 \<times> u8 \<times> u8 \<times> u8 \<times> arr4" where
  "globals w = (backlight w, numlines w, numcols w, displayfunction w,
                displaycontrol w, displaymode w, row_offsets w)"

text \<open>File-scope variables without initialiser are zero when the program starts.\<close>

definition power_on :: lcd where
  "power_on = \<lparr>backlight = 0, numlines = 0, numcols = 0, displayfunction = 0,
               displaycontrol = 0, displaymode = 0, row_offsets = Arr4 0 0 0 0,
               trace = [], attempts = 0\<rparr>"

subsection \<open>The bus and the delays\<close>

text \<open>
  The behaviour of the device on the bus: whether it acknowledges the n-th start
  condition issued since power-on, and the status it gives to a byte write, which may
  depend on everything that happened before.
\<close>

record bus_env =
  start_ack :: "nat \<Rightarrow> bool"
  write_status :: "event list \<Rightarrow> u8 \<Rightarrow> bool"

text \<open>
  Four devices used as examples: one that acknowledges everything, one that
  acknowledges every start condition and no byte, one that acknowledges only from the
  third start condition on, and one that never answers.
\<close>

definition ideal_bus :: bus_env where
  "ideal_bus = \<lparr>start_ack = (\<lambda>n. True), write_status = (\<lambda>h b. True)\<rparr>"

definition deaf_bus :: bus_env where
  "deaf_bus = \<lparr>start_ack = (\<lambda>n. True), write_status = (\<lambda>h b. False)\<rparr>"

definition slow_bus :: bus_env where
  "slow_bus = \<lparr>start_ack = (\<lambda>n. 2 \<le> n), write_status = (\<lambda>h b. True)\<rparr>"

definition absent_bus :: bus_env where
  "absent_bus = \<lparr>start_ack = (\<lambda>n. False), write_status = (\<lambda>h b. False)\<rparr>"

text \<open>
  Modelled from the spec: the body of \<open>I2C_startWait\<close> (I2C.c is not among the
  sources; I2C.h only declares it). Section 4.1: "like start, but retries the start
  condition in a bounded or unbounded spin-loop until the addressed device
  acknowledges; returns success once acknowledged". The loop tries start condition
  number \<open>n\<close>, then \<open>n + 1\<close>, and so on; it has no exit but the acknowledge, so a
  device that never answers makes it run forever (\<open>None\<close>).
\<close>

partial_function (option) I2C_startWait_loop :: "(nat \<Rightarrow> bool) \<Rightarrow> nat \<Rightarrow> nat option" where
  "I2C_startWait_loop ack n = (if ack n then Some n else I2C_startWait_loop ack (Suc n))"

definition I2C_startWait :: "bus_env \<Rightarrow> u8 \<Rightarrow> lcd \<Rightarrow> (bool \<times> lcd) option" where
  "I2C_startWait env addr w =
     (case I2C_startWait_loop (start_ack env) (attempts w) of
        None \<Rightarrow> None
      | Some n \<Rightarrow> Some (True, w\<lparr>trace := trace w @ [StartWait addr], attempts := Suc n\<rparr>))"

text \<open>
  Modelled from the spec: the body of \<open>I2C_write\<close>. Section 4.1: "transmits one
  byte; returns failure if not acknowledged".
\<close>

definition I2C_write :: "bus_env \<Rightarrow> u8 \<Rightarrow> lcd \<Rightarrow> bool \<times> lcd" where
  "I2C_write env data w = (write_status env (trace w) data, w\<lparr>trace := trace w @ [Write data]\<rparr>)"

text \<open>
  Modelled from the spec: the body of \<open>I2C_stop\<close>. Section 4.1: "issues a stop
  condition, releasing the bus; no return value".
\<close>

definition I2C_stop :: "lcd \<Rightarrow> lcd" where
  "I2C_stop w = w\<lparr>trace := trace w @ [Stop]\<rparr>"

text \<open>\<open>_delay_us\<close> and \<open>_delay_ms\<close> of the C library only let time pass.\<close>

definition delay_us :: "nat \<Rightarrow> lcd \<Rightarrow> lcd" where
  "delay_us n w = w\<lparr>trace := trace w @ [Delay_us n]\<rparr>"

definition delay_ms :: "nat \<Rightarrow> lcd \<Rightarrow> lcd" where
  "delay_ms n w = w\<lparr>trace := trace w @ [Delay_ms n]\<rparr>"

subsection \<open>Nibble transfer (I2C\_LCD.c, lines 22-46)\<close>

text \<open>Both return values of \<open>I2C_write\<close> are dropped, as in the source.\<close>

definition I2C_LCD_push :: "bus_env \<Rightarrow> u8 \<Rightarrow> lcd \<Rightarrow> lcd" where
  "I2C_LCD_push env i2c_data w =
     (let w1 = snd (I2C_write env
                 ((i2c_data AND NOT I2C_LCD_BL) OR I2C_LCD_E
                    OR (if backlight w \<noteq> 0 then I2C_LCD_BL else 0x00)) w);
          w2 = snd (I2C_write env
                 ((i2c_data AND NOT I2C_LCD_BL AND NOT I2C_LCD_E)
                    OR (if backlight w1 \<noteq> 0 then I2C_LCD_BL else 0x00)) w1)
      in delay_us 100 w2)"

definition I2C_LCD_command4bit :: "bus_env \<Rightarrow> u8 \<Rightarrow> lcd \<Rightarrow> lcd" where
  "I2C_LCD_command4bit env command w =
     (let w1 = I2C_LCD_push env (command AND 0xF0) w
      in I2C_LCD_push env (push_bit 4 command) w1)"

definition I2C_LCD_command8bit :: "bus_env \<Rightarrow> u8 \<Rightarrow> lcd \<Rightarrow> lcd" where
  "I2C_LCD_command8bit env command w = I2C_LCD_push env (command AND 0xF0) w"

definition I2C_LCD_write :: "bus_env \<Rightarrow> u8 \<Rightarrow> lcd \<Rightarrow> lcd" where
  "I2C_LCD_write env c w =
     (let w1 = I2C_LCD_push env ((c AND 0xF0) OR I2C_LCD_RS) w
      in I2C_LCD_push env ((push_bit 4 c) OR I2C_LCD_RS) w1)"

subsection \<open>Initialisation (lines 48-89) and row offsets (lines 109-115)\<close>

definition I2C_LCD_setRowOffsets :: "u8 \<Rightarrow> u8 \<Rightarrow> u8 \<Rightarrow> u8 \<Rightarrow> lcd \<Rightarrow> lcd" where
  "I2C_LCD_setRowOffsets row1 row2 row3 row4 w = w\<lparr>row_offsets := Arr4 row1 row2 row3 row4\<rparr>"

text \<open>
  A public operation returns \<open>None\<close> when it never returns (the start loop spins
  forever), and otherwise the state it leaves. The status of \<open>I2C_startWait\<close> is
  dropped, as in the source.
\<close>

definition I2C_LCD_init :: "bus_env \<Rightarrow> u8 \<Rightarrow> u8 \<Rightarrow> lcd \<Rightarrow> lcd option" where
  "I2C_LCD_init env cols lines w =
     (let w1 = w\<lparr>backlight := I2C_LCD_ON\<rparr>;
          w2 = delay_ms 40 w1
      in case I2C_startWait env (I2C_LCD_ADDRESS AND NOT I2C_WRITE) w2 of
           None \<Rightarrow> None
         | Some (ack, w3) \<Rightarrow>
             (let w4 = I2C_LCD_command8bit env (I2C_LCD_FUNCTIONSET OR I2C_LCD_8BITMODE) w3;
                  w5 = delay_us 4500 w4;
                  w6 = I2C_LCD_command8bit env (I2C_LCD_FUNCTIONSET OR I2C_LCD_8BITMODE) w5;
                  w7 = delay_us 150 w6;
                  w8 = I2C_LCD_command8bit env (I2C_LCD_FUNCTIONSET OR I2C_LCD_8BITMODE) w7;
                  w9 = I2C_LCD_command8bit env (I2C_LCD_FUNCTIONSET OR I2C_LCD_4BITMODE) w8;
                  w10 = (if lines > 1
                         then w9\<lparr>displayfunction := displayfunction w9 OR I2C_LCD_2LINE\<rparr>
                         else w9);
                  w11 = w10\<lparr>numlines := lines\<rparr>;
                  w12 = w11\<lparr>numcols := cols\<rparr>;
                  w13 = I2C_LCD_setRowOffsets 0x00 0x40 (0x00 + cols) (0x40 + cols) w12;
                  w14 = I2C_LCD_command4bit env (I2C_LCD_FUNCTIONSET OR displayfunction w13) w13;
                  w15 = w14\<lparr>displaycontrol := I2C_LCD_DISPLAY\<rparr>;
                  w16 = I2C_LCD_command4bit env (I2C_LCD_DISPLAYCONTROL OR displaycontrol w15) w15;
                  w17 = I2C_LCD_command4bit env I2C_LCD_CLEARDISPLAY w16;
                  w18 = w17\<lparr>displaymode := I2C_LCD_ENTRYLEFT OR I2C_LCD_ENTRYSHIFTDECREMENT\<rparr>;
                  w19 = I2C_LCD_command4bit env (I2C_LCD_ENTRYMODESET OR displaymode w18) w18
              in Some (I2C_stop w19)))"

subsection \<open>Text output (lines 91-107)\<close>

text \<open>
  The argument of \<open>print\<close> is an array of bytes; the list is the whole array, and a
  read at or beyond its length is a fault. The loop counter is a \<open>uint8_t\<close>: \<open>++i\<close>
  takes 255 to 0. The loop has no other exit than reading a zero byte, so it is a
  partial function: \<open>None\<close> when it never leaves.
\<close>

partial_function (option) I2C_LCD_print_loop ::
    "bus_env \<Rightarrow> u8 list \<Rightarrow> u8 \<Rightarrow> lcd \<Rightarrow> (fault + lcd) option" where
  "I2C_LCD_print_loop env c i w =
     (if unat i < length c then
        (if c ! unat i \<noteq> 0
         then I2C_LCD_print_loop env c (i + 1) (I2C_LCD_write env (c ! unat i) w)
         else Some (Inr w))
      else Some (Inl (OutOfBounds (uint i))))"

definition I2C_LCD_print :: "bus_env \<Rightarrow> u8 list \<Rightarrow> lcd \<Rightarrow> (fault + lcd) option" where
  "I2C_LCD_print env c w =
     (case I2C_startWait env (I2C_LCD_ADDRESS AND NOT I2C_WRITE) w of
        None \<Rightarrow> None
      | Some (ack, w1) \<Rightarrow>
          (case I2C_LCD_print_loop env c 0 w1 of
             None \<Rightarrow> None
           | Some (Inl f) \<Rightarrow> Some (Inl f)
           | Some (Inr w2) \<Rightarrow> Some (Inr (I2C_stop w2))))"

definition I2C_LCD_printChar :: "bus_env \<Rightarrow> u8 \<Rightarrow> lcd \<Rightarrow> lcd option" where
  "I2C_LCD_printChar env c w =
     (case I2C_startWait env (I2C_LCD_ADDRESS AND NOT I2C_WRITE) w of
        None \<Rightarrow> None
      | Some (ack, w1) \<Rightarrow> Some (I2C_stop (I2C_LCD_write env c w1)))"

text \<open>A text of 256 letters \<open>A\<close> followed by the terminator: 257 bytes.\<close>

definition long_text :: "u8 list" where
  "long_text = replicate 256 0x41 @ [0]"

subsection \<open>Cursor addressing (lines 117-130, 171-173)\<close>

text \<open>
  \<open>row-1\<close> and \<open>col-1\<close> are \<open>int\<close> expressions: for \<open>row = 0\<close> the subscript is
  \<open>-1\<close>. The command argument is truncated to 8 bits by the call.
\<close>

definition I2C_LCD_setCursorWOI2C :: "bus_env \<Rightarrow> u8 \<Rightarrow> u8 \<Rightarrow> lcd \<Rightarrow> fault + lcd" where
  "I2C_LCD_setCursorWOI2C env col row w =
     (let col' = (if col \<ge> numcols w then numcols w else col);
          row' = (if row \<ge> numlines w then numlines w else row)
      in case arr4_get (row_offsets w) (uint row' - 1) of
           Inl f \<Rightarrow> Inl f
         | Inr off \<Rightarrow>
             Inr (I2C_LCD_command4bit env
                    (word_of_int (uint I2C_LCD_SETDDRAMADDR OR ((uint col' - 1) + uint off))) w))"

definition I2C_LCD_setCursor :: "bus_env \<Rightarrow> u8 \<Rightarrow> u8 \<Rightarrow> lcd \<Rightarrow> (fault + lcd) option" where
  "I2C_LCD_setCursor env col row w =
     (case I2C_startWait env (I2C_LCD_ADDRESS AND NOT I2C_WRITE) w of
        None \<Rightarrow> None
      | Some (ack, w1) \<Rightarrow>
          (case I2C_LCD_setCursorWOI2C env col row w1 of
             Inl f \<Rightarrow> Some (Inl f)
           | Inr w2 \<Rightarrow> Some (Inr (I2C_stop w2))))"

definition I2C_LCD_home :: "bus_env \<Rightarrow> lcd \<Rightarrow> (fault + lcd) option" where
  "I2C_LCD_home env w = I2C_LCD_setCursor env 1 1 w"

subsection \<open>Attributes (lines 132-219)\<close>

definition I2C_LCD_cursor :: "bus_env \<Rightarrow> u8 \<Rightarrow> lcd \<Rightarrow> lcd option" where
  "I2C_LCD_cursor env state w =
     (let w1 = w\<lparr>displaycontrol := displaycontrol w AND NOT I2C_LCD_CURSOR\<rparr>;
          w2 = w1\<lparr>displaycontrol := displaycontrol w1 OR (if state \<noteq> 0 then I2C_LCD_CURSOR else 0)\<rparr>
      in case I2C_startWait env (I2C_LCD_ADDRESS AND NOT I2C_WRITE) w2 of
           None \<Rightarrow> None
         | Some (ack, w3) \<Rightarrow>
             Some (I2C_stop (I2C_LCD_command4bit env (I2C_LCD_DISPLAYCONTROL OR displaycontrol w3) w3)))"

definition I2C_LCD_blink :: "bus_env \<Rightarrow> u8 \<Rightarrow> lcd \<Rightarrow> lcd option" where
  "I2C_LCD_blink env state w =
     (let w1 = w\<lparr>displaycontrol := displaycontrol w AND NOT I2C_LCD_BLINK\<rparr>;
          w2 = w1\<lparr>displaycontrol := displaycontrol w1 OR (if state \<noteq> 0 then I2C_LCD_BLINK else 0)\<rparr>
      in case I2C_startWait env (I2C_LCD_ADDRESS AND NOT I2C_WRITE) w2 of
           None \<Rightarrow> None
         | Some (ack, w3) \<Rightarrow>
             Some (I2C_stop (I2C_LCD_command4bit env (I2C_LCD_DISPLAYCONTROL OR displaycontrol w3) w3)))"

definition I2C_LCD_display :: "bus_env \<Rightarrow> u8 \<Rightarrow> lcd \<Rightarrow> lcd option" where
  "I2C_LCD_display env state w =
     (let w1 = w\<lparr>displaycontrol := displaycontrol w AND NOT I2C_LCD_DISPLAY\<rparr>;
          w2 = w1\<lparr>displaycontrol := displaycontrol w1 OR (if state \<noteq> 0 then I2C_LCD_DISPLAY else 0)\<rparr>
      in case I2C_startWait env (I2C_LCD_ADDRESS AND NOT I2C_WRITE) w2 of
           None \<Rightarrow> None
         | Some (ack, w3) \<Rightarrow>
             Some (I2C_stop (I2C_LCD_command4bit env (I2C_LCD_DISPLAYCONTROL OR displaycontrol w3) w3)))"

definition I2C_LCD_backlight :: "bus_env \<Rightarrow> u8 \<Rightarrow> lcd \<Rightarrow> lcd option" where
  "I2C_LCD_backlight env state w =
     (let w1 = w\<lparr>backlight := state\<rparr>
      in case I2C_startWait env (I2C_LCD_ADDRESS AND NOT I2C_WRITE) w1 of
           None \<Rightarrow> None
         | Some (ack, w2) \<Rightarrow>
             Some (I2C_stop (I2C_LCD_command4bit env (I2C_LCD_DISPLAYCONTROL OR displaycontrol w2) w2)))"

definition I2C_LCD_clear :: "bus_env \<Rightarrow> lcd \<Rightarrow> lcd option" where
  "I2C_LCD_clear env w =
     (case I2C_startWait env (I2C_LCD_ADDRESS AND NOT I2C_WRITE) w of
        None \<Rightarrow> None
      | Some (ack, w1) \<Rightarrow> Some (I2C_stop (I2C_LCD_command4bit env I2C_LCD_CLEARDISPLAY w1)))"

definition I2C_LCD_scrollDisplayLeft :: "bus_env \<Rightarrow> lcd \<Rightarrow> lcd option" where
  "I2C_LCD_scrollDisplayLeft env w =
     (case I2C_startWait env (I2C_LCD_ADDRESS AND NOT I2C_WRITE) w of
        None \<Rightarrow> None
      | Some (ack, w1) \<Rightarrow>
          Some (I2C_stop (I2C_LCD_command4bit env
                  (I2C_LCD_CURSORSHIFT OR I2C_LCD_DISPLAYMOVE OR I2C_LCD_MOVELEFT) w1)))"

definition I2C_LCD_scrollDisplayRight :: "bus_env \<Rightarrow> lcd \<Rightarrow> lcd option" where
  "I2C_LCD_scrollDisplayRight env w =
     (case I2C_startWait env (I2C_LCD_ADDRESS AND NOT I2C_WRITE) w of
        None \<Rightarrow> None
      | Some (ack, w1) \<Rightarrow>
          Some (I2C_stop (I2C_LCD_command4bit env
                  (I2C_LCD_CURSORSHIFT OR I2C_LCD_DISPLAYMOVE OR I2C_LCD_MOVERIGHT) w1)))"

definition I2C_LCD_leftToRight :: "bus_env \<Rightarrow> lcd \<Rightarrow> lcd option" where
  "I2C_LCD_leftToRight env w =
     (let w1 = w\<lparr>displaymode := displaymode w OR I2C_LCD_ENTRYLEFT\<rparr>
      in case I2C_startWait env (I2C_LCD_ADDRESS AND NOT I2C_WRITE) w1 of
           None \<Rightarrow> None
         | Some (ack, w2) \<Rightarrow>
             Some (I2C_stop (I2C_LCD_command4bit env (I2C_LCD_ENTRYMODESET OR displaymode w2) w2)))"

definition I2C_LCD_rightToLeft :: "bus_env \<Rightarrow> lcd \<Rightarrow> lcd option" where
  "I2C_LCD_rightToLeft env w =
     (let w1 = w\<lparr>displaymode := displaymode w AND NOT I2C_LCD_ENTRYLEFT\<rparr>
      in case I2C_startWait env (I2C_LCD_ADDRESS AND NOT I2C_WRITE) w1 of
           None \<Rightarrow> None
         | Some (ack, w2) \<Rightarrow>
             Some (I2C_stop (I2C_LCD_command4bit env (I2C_LCD_ENTRYMODESET OR displaymode w2) w2)))"

definition I2C_LCD_cursorFixPosition :: "bus_env \<Rightarrow> u8 \<Rightarrow> lcd \<Rightarrow> lcd option" where
  "I2C_LCD_cursorFixPosition env state w =
     (let w1 = w\<lparr>displaymode := displaymode w AND NOT I2C_LCD_ENTRYSHIFTINCREMENT\<rparr>;
          w2 = w1\<lparr>displaymode := displaymode w1
                      OR (if state \<noteq> 0 then I2C_LCD_ENTRYSHIFTINCREMENT else 0)\<rparr>
      in case I2C_startWait env (I2C_LCD_ADDRESS AND NOT I2C_WRITE) w2 of
           None \<Rightarrow> None
         | Some (ack, w3) \<Rightarrow>
             Some (I2C_stop (I2C_LCD_command4bit env (I2C_LCD_ENTRYMODESET OR displaymode w3) w3)))"

subsection \<open>Custom characters (lines 223-231)\<close>

text \<open>
  The loop \<open>for (uint8_t i=0; i<8; i++)\<close> reads \<open>charmap[i]\<close>; the list is the whole
  array the caller passed, and a read beyond it is a fault.
\<close>

function I2C_LCD_createChar_loop :: "bus_env \<Rightarrow> u8 list \<Rightarrow> u8 \<Rightarrow> lcd \<Rightarrow> fault + lcd" where
  "I2C_LCD_createChar_loop env charmap i w =
     (if i < 8 then
        (if unat i < length charmap
         then I2C_LCD_createChar_loop env charmap (i + 1)
                (I2C_LCD_write env (charmap ! unat i AND 0x1F) w)
         else Inl (OutOfBounds (uint i)))
      else Inr w)"
  by pat_completeness auto
termination
proof (relation "measure (\<lambda>(env, charmap, i, w). 8 - unat i)")
  show "wf (measure (\<lambda>(env, charmap, i, w). 8 - unat i))"
    by simp
next
  fix env :: bus_env and charmap :: "u8 list" and i :: u8 and w :: lcd
  assume "i < 8"
  then have "unat i < 8"
    by (simp add: word_less_nat_alt)
  then have "unat (i + 1) = unat i + 1"
    by (simp add: unat_word_ariths)
  with \<open>unat i < 8\<close>
  show "((env, charmap, i + 1, I2C_LCD_write env (charmap ! unat i AND 0x1F) w),
         (env, charmap, i, w)) \<in> measure (\<lambda>(env, charmap, i, w). 8 - unat i)"
    by simp
qed

declare I2C_LCD_createChar_loop.simps [simp del]

definition I2C_LCD_createChar :: "bus_env \<Rightarrow> u8 \<Rightarrow> u8 list \<Rightarrow> lcd \<Rightarrow> (fault + lcd) option" where
  "I2C_LCD_createChar env location charmap w =
     (let location' = location AND 0x7
      in case I2C_startWait env (I2C_LCD_ADDRESS AND NOT I2C_WRITE) w of
           None \<Rightarrow> None
         | Some (ack, w1) \<Rightarrow>
             (let w2 = I2C_LCD_command4bit env (I2C_LCD_SETCGRAMADDR OR (push_bit 3 location')) w1
              in case I2C_LCD_createChar_loop env charmap 0 w2 of
                   Inl f \<Rightarrow> Some (Inl f)
                 | Inr w3 \<Rightarrow> Some (Inr (I2C_stop w3))))"

subsection \<open>The application's calls\<close>

text \<open>
  One constructor for each function declared in I2C\_LCD.h, and the dispatcher that an
  application's call amounts to. Functions that cannot fault return \<open>Inr\<close>; functions
  that open no transaction always return.
\<close>

datatype call =
    Init u8 u8
  | Clear
  | Home
  | SetCursor u8 u8
  | SetCursorWOI2C u8 u8
  | Print "u8 list"
  | PrintChar u8
  | Display u8
  | Backlight u8
  | Blink u8
  | Cursor u8
  | LeftToRight
  | RightToLeft
  | ScrollDisplayLeft
  | ScrollDisplayRight
  | CursorFixPosition u8
  | CreateChar u8 "u8 list"
  | WriteData u8
  | Command4bit u8
  | Command8bit u8
  | SetRowOffsets u8 u8 u8 u8
  | Push u8

fun run :: "bus_env \<Rightarrow> call \<Rightarrow> lcd \<Rightarrow> (fault + lcd) option" where
  "run env (Init cols lines) w = map_option Inr (I2C_LCD_init env cols lines w)"
| "run env Clear w = map_option Inr (I2C_LCD_clear env w)"
| "run env Home w = I2C_LCD_home env w"
| "run env (SetCursor col row) w = I2C_LCD_setCursor env col row w"
| "run env (SetCursorWOI2C col row) w = Some (I2C_LCD_setCursorWOI2C env col row w)"
| "run env (Print c) w = I2C_LCD_print env c w"
| "run env (PrintChar c) w = map_option Inr (I2C_LCD_printChar env c w)"
| "run env (Display state) w = map_option Inr (I2C_LCD_display env state w)"
| "run env (Backlight state) w = map_option Inr (I2C_LCD_backlight env state w)"
| "run env (Blink state) w = map_option Inr (I2C_LCD_blink env state w)"
| "run env (Cursor state) w = map_option Inr (I2C_LCD_cursor env state w)"
| "run env LeftToRight w = map_option Inr (I2C_LCD_leftToRight env w)"
| "run env RightToLeft w = map_option Inr (I2C_LCD_rightToLeft env w)"
| "run env ScrollDisplayLeft w = map_option Inr (I2C_LCD_scrollDisplayLeft env w)"
| "run env ScrollDisplayRight w = map_option Inr (I2C_LCD_scrollDisplayRight env w)"
| "run env (CursorFixPosition state) w = map_option Inr (I2C_LCD_cursorFixPosition env state w)"
| "run env (CreateChar location charmap) w = I2C_LCD_createChar env location charmap w"
| "run env (WriteData c) w = Some (Inr (I2C_LCD_write env c w))"
| "run env (Command4bit cmd) w = Some (Inr (I2C_LCD_command4bit env cmd w))"
| "run env (Command8bit cmd) w = Some (Inr (I2C_LCD_command8bit env cmd w))"
| "run env (SetRowOffsets row1 row2 row3 row4) w =
     Some (Inr (I2C_LCD_setRowOffsets row1 row2 row3 row4 w))"
| "run env (Push i2c_data) w = Some (Inr (I2C_LCD_push env i2c_data w))"

subsection \<open>What a nibble transfer puts on the bus\<close>

text \<open>
  The three calls of one push, for a stored backlight byte \<open>bl\<close> and payload \<open>p\<close>;
  then the six calls of a two-nibble command and of a two-nibble data byte. These
  are the vocabulary in which the longer call sequences below are written.
\<close>

definition strobe :: "u8 \<Rightarrow> u8 \<Rightarrow> event list" where
  "strobe bl p =
     [Write ((p AND NOT 0x08) OR 0x04 OR (if bl \<noteq> 0 then 0x08 else 0)),
      Write ((p AND NOT 0x08 AND NOT 0x04) OR (if bl \<noteq> 0 then 0x08 else 0)),
      Delay_us 100]"

definition command_nibbles :: "u8 \<Rightarrow> u8 \<Rightarrow> event list" where
  "command_nibbles bl c = strobe bl (c AND 0xF0) @ strobe bl (push_bit 4 c)"

definition data_nibbles :: "u8 \<Rightarrow> u8 \<Rightarrow> event list" where
  "data_nibbles bl c = strobe bl ((c AND 0xF0) OR 0x01) @ strobe bl ((push_bit 4 c) OR 0x01)"

subsection \<open>Reference states and the clamp of the specification\<close>

text \<open>
  The state that \<open>init cols lines\<close> leaves when it is the first call after power-on
  and the device acknowledges the first start condition (lemma \<open>init_power_on\<close>
  below shows that it is).
\<close>

definition after_init :: "u8 \<Rightarrow> u8 \<Rightarrow> lcd" where
  "after_init cols lines =
     \<lparr>backlight = 0xFF, numlines = lines, numcols = cols,
      displayfunction = (if lines > 1 then 0x08 else 0x00),
      displaycontrol = 0x04, displaymode = 0x02,
      row_offsets = Arr4 0x00 0x40 (0x00 + cols) (0x40 + cols),
      trace = [Delay_ms 40, StartWait 0x4E]
        @ strobe 0xFF 0x30 @ [Delay_us 4500]
        @ strobe 0xFF 0x30 @ [Delay_us 150]
        @ strobe 0xFF 0x30
        @ strobe 0xFF 0x20
        @ command_nibbles 0xFF (0x20 OR (if lines > 1 then 0x08 else 0x00))
        @ command_nibbles 0xFF 0x0C
        @ command_nibbles 0xFF 0x01
        @ command_nibbles 0xFF 0x06
        @ [Stop],
      attempts = 1\<rparr>"

text \<open>
  The specification's words for the cursor arguments, "clamps col to [1, columnCount]
  and row to [1, lineCount]": a clamp into a closed interval. It is compared below with
  what \<open>I2C_LCD_setCursorWOI2C\<close> does.
\<close>

definition clamp_spec :: "u8 \<Rightarrow> u8 \<Rightarrow> u8 \<Rightarrow> u8" where
  "clamp_spec lo hi x = (if x < lo then lo else if hi < x then hi else x)"

section \<open>Properties\<close>

subsection \<open>Nibble transfer\<close>

lemma push_eq: "I2C_LCD_push env p w = w\<lparr>trace := trace w @ strobe (backlight w) p\<rparr>"
  by (simp add: I2C_LCD_push_def I2C_write_def delay_us_def strobe_def Let_def)

lemma command4bit_eq:
  "I2C_LCD_command4bit env c w = w\<lparr>trace := trace w @ command_nibbles (backlight w) c\<rparr>"
  by (simp add: I2C_LCD_command4bit_def push_eq command_nibbles_def Let_def)

lemma command8bit_eq:
  "I2C_LCD_command8bit env c w = w\<lparr>trace := trace w @ strobe (backlight w) (c AND 0xF0)\<rparr>"
  by (simp add: I2C_LCD_command8bit_def push_eq)

lemma write_eq:
  "I2C_LCD_write env c w = w\<lparr>trace := trace w @ data_nibbles (backlight w) c\<rparr>"
  by (simp add: I2C_LCD_write_def push_eq data_nibbles_def Let_def)

subsection \<open>The start loop\<close>

lemma startWait_loop_ack: "ack n \<Longrightarrow> I2C_startWait_loop ack n = Some n"
  by (subst I2C_startWait_loop.simps) simp

lemma startWait_loop_nack: "\<not> ack n \<Longrightarrow> I2C_startWait_loop ack n = I2C_startWait_loop ack (Suc n)"
  by (subst I2C_startWait_loop.simps) simp

lemma startWait_loop_Some:
  assumes "I2C_startWait_loop ack n = Some k"
  shows "n \<le> k \<and> ack k \<and> (\<forall>j. n \<le> j \<and> j < k \<longrightarrow> \<not> ack j)"
proof (rule I2C_startWait_loop.raw_induct
         [where P = "\<lambda>ack n k. n \<le> k \<and> ack k \<and> (\<forall>j. n \<le> j \<and> j < k \<longrightarrow> \<not> ack j)",
          OF _ assms], goal_cases)
  case (1 loop ack n k)
  show ?case
  proof (cases "ack n")
    case True
    with 1(2) show ?thesis by auto
  next
    case False
    with 1(2) have "loop ack (Suc n) = Some k" by simp
    from 1(1)[OF this] have ih: "Suc n \<le> k" "ack k" "\<forall>j. Suc n \<le> j \<and> j < k \<longrightarrow> \<not> ack j"
      by simp_all
    have "\<not> ack j" if "n \<le> j" "j < k" for j
    proof (cases "j = n")
      case True
      with False show ?thesis by simp
    next
      case False
      with that have "Suc n \<le> j" by simp
      with ih(3) that show ?thesis by simp
    qed
    with ih show ?thesis by simp
  qed
qed

lemma startWait_loop_returns:
  "n \<le> m \<Longrightarrow> ack m \<Longrightarrow> \<exists>k. I2C_startWait_loop ack n = Some k \<and> n \<le> k \<and> k \<le> m"
proof (induction "m - n" arbitrary: n)
  case 0
  then show ?case by (auto simp: startWait_loop_ack)
next
  case (Suc d)
  show ?case
  proof (cases "ack n")
    case True
    with Suc.prems show ?thesis by (auto simp: startWait_loop_ack)
  next
    case False
    from Suc.hyps(2) Suc.prems have "d = m - Suc n" "Suc n \<le> m" by auto
    from Suc.hyps(1)[OF this Suc.prems(2)] False show ?thesis
      by (auto simp: startWait_loop_nack)
  qed
qed

lemma startWait_returns:
  assumes "\<exists>m\<ge>attempts w. start_ack env m"
  shows "\<exists>n>attempts w. I2C_startWait env a w =
           Some (True, w\<lparr>trace := trace w @ [StartWait a], attempts := n\<rparr>)"
proof -
  from assms obtain m where "attempts w \<le> m" "start_ack env m" by blast
  from startWait_loop_returns[of "attempts w" m "start_ack env"] this obtain k where
    "I2C_startWait_loop (start_ack env) (attempts w) = Some k" "attempts w \<le> k" by blast
  then show ?thesis
    by (intro exI[of _ "Suc k"]) (simp add: I2C_startWait_def)
qed

lemma startWait_blocks:
  assumes "\<forall>m\<ge>attempts w. \<not> start_ack env m"
  shows "I2C_startWait env a w = None"
proof (cases "I2C_startWait_loop (start_ack env) (attempts w)")
  case None
  then show ?thesis by (simp add: I2C_startWait_def)
next
  case (Some k)
  from startWait_loop_Some[OF this] assms show ?thesis by blast
qed

lemma startWait_loop_ideal: "I2C_startWait_loop (start_ack ideal_bus) n = Some n"
  by (simp add: ideal_bus_def startWait_loop_ack)

subsection \<open>Bytes, bit by bit\<close>

lemma u8_bits_eq:
  fixes x y :: u8
  shows "x = y \<longleftrightarrow>
    bit x 0 = bit y 0 \<and> bit x 1 = bit y 1 \<and> bit x 2 = bit y 2 \<and> bit x 3 = bit y 3 \<and>
    bit x 4 = bit y 4 \<and> bit x 5 = bit y 5 \<and> bit x 6 = bit y 6 \<and> bit x 7 = bit y 7"
proof
  assume "x = y"
  then show "bit x 0 = bit y 0 \<and> bit x 1 = bit y 1 \<and> bit x 2 = bit y 2 \<and> bit x 3 = bit y 3 \<and>
    bit x 4 = bit y 4 \<and> bit x 5 = bit y 5 \<and> bit x 6 = bit y 6 \<and> bit x 7 = bit y 7"
    by simp
next
  assume bits: "bit x 0 = bit y 0 \<and> bit x 1 = bit y 1 \<and> bit x 2 = bit y 2 \<and> bit x 3 = bit y 3 \<and>
    bit x 4 = bit y 4 \<and> bit x 5 = bit y 5 \<and> bit x 6 = bit y 6 \<and> bit x 7 = bit y 7"
  show "x = y"
  proof (rule bit_word_eqI)
    fix n :: nat
    assume "n < LENGTH(8)"
    then have "n \<in> {0, 1, 2, 3, 4, 5, 6, 7}"
      by simp arith
    with bits show "bit x n = bit y n"
      by auto
  qed
qed


lemma nibble_clear_bits:
  fixes c :: u8
  shows "(c AND 0xF0) AND NOT 0x08 = c AND 0xF0"
    and "(c AND 0xF0) AND NOT 0x08 AND NOT 0x04 = c AND 0xF0"
    and "push_bit 4 c AND NOT 0x08 = push_bit 4 c"
    and "push_bit 4 c AND NOT 0x08 AND NOT 0x04 = push_bit 4 c"
  by (simp_all add: u8_bits_eq bit_simps)

subsection \<open>Push and the two-nibble command\<close>

text \<open>
  C2. For every byte \<open>b\<close> and every stored backlight byte, \<open>push b\<close> makes exactly
  two byte writes and then the 100 microsecond delay. With \<open>v\<close> the byte \<open>b\<close> whose
  backlight bit (0x08) is replaced by the stored backlight flag, the first write is \<open>v\<close>
  with the enable bit (0x04) set and the second is \<open>v\<close> with the enable bit cleared:
  enable is high in the first write and low in the second, the backlight bit equals the
  stored flag in both, and the bits outside 0x0C (data, RS, RW) are those of \<open>b\<close> in
  both. Nothing else of the state changes.
\<close>

theorem push_two_writes:
  "let v = (b AND NOT 0x08) OR (if backlight w \<noteq> 0 then 0x08 else 0);
       x = v OR 0x04;
       y = v AND NOT 0x04
   in I2C_LCD_push env b w = w\<lparr>trace := trace w @ [Write x, Write y, Delay_us 100]\<rparr>
      \<and> bit x 2 \<and> \<not> bit y 2
      \<and> bit x 3 = (backlight w \<noteq> 0) \<and> bit y 3 = (backlight w \<noteq> 0)
      \<and> x AND 0xF3 = b AND 0xF3 \<and> y AND 0xF3 = b AND 0xF3"
proof (cases "backlight w = 0")
  case True
  have "(b AND NOT 0x08) OR 0x04 OR 0 = ((b AND NOT 0x08) OR 0) OR (0x04 :: u8)"
    and "(b AND NOT 0x08 AND NOT 0x04) OR 0 = ((b AND NOT 0x08) OR 0) AND NOT (0x04 :: u8)"
    and "bit (((b AND NOT 0x08) OR 0) OR (0x04 :: u8)) 2"
    and "\<not> bit (((b AND NOT 0x08) OR 0) AND NOT (0x04 :: u8)) 2"
    and "\<not> bit (((b AND NOT 0x08) OR 0) OR (0x04 :: u8)) 3"
    and "\<not> bit (((b AND NOT 0x08) OR 0) AND NOT (0x04 :: u8)) 3"
    and "(((b AND NOT 0x08) OR 0) OR (0x04 :: u8)) AND 0xF3 = b AND 0xF3"
    and "(((b AND NOT 0x08) OR 0) AND NOT (0x04 :: u8)) AND 0xF3 = b AND 0xF3"
    by (simp_all add: u8_bits_eq bit_simps)
  with True show ?thesis
    by (simp add: Let_def push_eq strobe_def)
next
  case False
  have "(b AND NOT 0x08) OR 0x04 OR 0x08 = ((b AND NOT 0x08) OR 0x08) OR (0x04 :: u8)"
    and "(b AND NOT 0x08 AND NOT 0x04) OR 0x08 = ((b AND NOT 0x08) OR 0x08) AND NOT (0x04 :: u8)"
    and "bit (((b AND NOT 0x08) OR 0x08) OR (0x04 :: u8)) 2"
    and "\<not> bit (((b AND NOT 0x08) OR 0x08) AND NOT (0x04 :: u8)) 2"
    and "bit (((b AND NOT 0x08) OR 0x08) OR (0x04 :: u8)) 3"
    and "bit (((b AND NOT 0x08) OR 0x08) AND NOT (0x04 :: u8)) 3"
    and "(((b AND NOT 0x08) OR 0x08) OR (0x04 :: u8)) AND 0xF3 = b AND 0xF3"
    and "(((b AND NOT 0x08) OR 0x08) AND NOT (0x04 :: u8)) AND 0xF3 = b AND 0xF3"
    by (simp_all add: u8_bits_eq bit_simps)
  with False show ?thesis
    by (simp add: Let_def push_eq strobe_def)
qed

text \<open>
  C4. For every byte \<open>c\<close>, \<open>command4bit c\<close> is two pushes: first the payload
  \<open>c & 0xF0\<close>, then the payload \<open>c << 4\<close> truncated to 8 bits, which is
  \<open>(c * 16) mod 256\<close>. On the bus these are four writes and two delays, the high
  nibble before the low nibble. For \<open>c = 0xAB\<close> the payloads are 0xA0 and 0xB0.
\<close>

theorem command4bit_two_pushes:
  "let hi = c AND 0xF0; lo = push_bit 4 c; bl = (if backlight w \<noteq> 0 then 0x08 else 0)
   in I2C_LCD_command4bit env c w = I2C_LCD_push env lo (I2C_LCD_push env hi w)
      \<and> I2C_LCD_command4bit env c w =
          w\<lparr>trace := trace w @ [Write (hi OR 0x04 OR bl), Write (hi OR bl), Delay_us 100,
                                  Write (lo OR 0x04 OR bl), Write (lo OR bl), Delay_us 100]\<rparr>
      \<and> unat lo = (unat c * 16) mod 256
      \<and> I2C_LCD_command4bit env 0xAB w = I2C_LCD_push env 0xB0 (I2C_LCD_push env 0xA0 w)"
proof -
  have calls: "I2C_LCD_command4bit env c w =
                 I2C_LCD_push env (push_bit 4 c) (I2C_LCD_push env (c AND 0xF0) w)"
    by (simp add: I2C_LCD_command4bit_def Let_def)
  have bus: "I2C_LCD_command4bit env c w =
          w\<lparr>trace := trace w @
             [Write ((c AND 0xF0) OR 0x04 OR (if backlight w \<noteq> 0 then 0x08 else 0)),
              Write ((c AND 0xF0) OR (if backlight w \<noteq> 0 then 0x08 else 0)), Delay_us 100,
              Write (push_bit 4 c OR 0x04 OR (if backlight w \<noteq> 0 then 0x08 else 0)),
              Write (push_bit 4 c OR (if backlight w \<noteq> 0 then 0x08 else 0)), Delay_us 100]\<rparr>"
    unfolding command4bit_eq command_nibbles_def strobe_def nibble_clear_bits
    by simp
  have "push_bit 4 c = c * 16"
    by (simp add: push_bit_eq_mult)
  then have shift: "unat (push_bit 4 c) = (unat c * 16) mod 256"
    by (simp only: unat_word_ariths) simp
  have "(0xAB :: u8) AND 0xF0 = 0xA0" and "push_bit 4 (0xAB :: u8) = 0xB0"
    by simp_all
  then have ab: "I2C_LCD_command4bit env 0xAB w = I2C_LCD_push env 0xB0 (I2C_LCD_push env 0xA0 w)"
    by (simp only: I2C_LCD_command4bit_def Let_def)
  show ?thesis
    unfolding Let_def using calls bus shift ab by blast
qed

subsection \<open>Initialisation\<close>

lemma init_eq:
  "I2C_LCD_init env cols lines w =
     (case I2C_startWait_loop (start_ack env) (attempts w) of
        None \<Rightarrow> None
      | Some k \<Rightarrow>
          Some (w\<lparr>backlight := 0xFF,
                   numlines := lines,
                   numcols := cols,
                   displayfunction := (if lines > 1 then displayfunction w OR 0x08
                                       else displayfunction w),
                   displaycontrol := 0x04,
                   displaymode := 0x02,
                   row_offsets := Arr4 0x00 0x40 (0x00 + cols) (0x40 + cols),
                   trace := trace w @ [Delay_ms 40, StartWait 0x4E]
                      @ strobe 0xFF 0x30 @ [Delay_us 4500]
                      @ strobe 0xFF 0x30 @ [Delay_us 150]
                      @ strobe 0xFF 0x30
                      @ strobe 0xFF 0x20
                      @ command_nibbles 0xFF
                          (0x20 OR (if lines > 1 then displayfunction w OR 0x08
                                    else displayfunction w))
                      @ command_nibbles 0xFF 0x0C
                      @ command_nibbles 0xFF 0x01
                      @ command_nibbles 0xFF 0x06
                      @ [Stop],
                   attempts := Suc k\<rparr>))"
  by (simp add: I2C_LCD_init_def Let_def I2C_startWait_def delay_ms_def delay_us_def
        command4bit_eq command8bit_eq I2C_stop_def I2C_LCD_setRowOffsets_def
        split: option.split)


lemma init_power_on: "I2C_LCD_init ideal_bus cols lines power_on = Some (after_init cols lines)"
  by (simp add: init_eq ideal_bus_def startWait_loop_ack power_on_def after_init_def)

lemma init_Some:
  assumes "I2C_LCD_init env cols lines v = Some w"
  shows "numlines w = lines" and "numcols w = cols"
    and "row_offsets w = Arr4 0x00 0x40 (0x00 + cols) (0x40 + cols)"
  using assms unfolding init_eq
  by (auto split: option.splits)


lemma after_init_fields:
  "backlight (after_init c l) = 0xFF"
  "numlines (after_init c l) = l"
  "numcols (after_init c l) = c"
  "row_offsets (after_init c l) = Arr4 0x00 0x40 (0x00 + c) (0x40 + c)"
  "attempts (after_init c l) = 1"
  by (simp_all add: after_init_def)

lemma init_call:
  assumes "\<exists>m\<ge>attempts w. start_ack env m"
  shows "\<exists>n>attempts w. I2C_LCD_init env cols lines w =
           Some (w\<lparr>backlight := 0xFF,
                    numlines := lines,
                    numcols := cols,
                    displayfunction := (if lines > 1 then displayfunction w OR 0x08
                                        else displayfunction w),
                    displaycontrol := 0x04,
                    displaymode := 0x02,
                    row_offsets := Arr4 0x00 0x40 (0x00 + cols) (0x40 + cols),
                    trace := trace w @ [Delay_ms 40, StartWait 0x4E]
                       @ strobe 0xFF 0x30 @ [Delay_us 4500]
                       @ strobe 0xFF 0x30 @ [Delay_us 150]
                       @ strobe 0xFF 0x30
                       @ strobe 0xFF 0x20
                       @ command_nibbles 0xFF
                           (0x20 OR (if lines > 1 then displayfunction w OR 0x08
                                     else displayfunction w))
                       @ command_nibbles 0xFF 0x0C
                       @ command_nibbles 0xFF 0x01
                       @ command_nibbles 0xFF 0x06
                       @ [Stop],
                    attempts := n\<rparr>)"
proof -
  let ?w2 = "delay_ms 40 (w\<lparr>backlight := 0xFF\<rparr>)"
  from assms have "\<exists>m\<ge>attempts ?w2. start_ack env m"
    by (simp add: delay_ms_def)
  from startWait_returns[OF this, of "0x4E"] obtain n where n: "attempts w < n"
    "I2C_startWait env 0x4E ?w2 =
       Some (True, ?w2\<lparr>trace := trace ?w2 @ [StartWait 0x4E], attempts := n\<rparr>)"
    by (auto simp: delay_ms_def)
  show ?thesis
    apply (intro exI[of _ n] conjI n(1))
    apply (simp add: I2C_LCD_init_def Let_def n(2))
    apply (simp add: delay_ms_def delay_us_def command4bit_eq command8bit_eq I2C_stop_def
             I2C_LCD_setRowOffsets_def)
    done
qed

text \<open>
  C1. For every \<open>cols\<close> and \<open>lines\<close>, and a device that acknowledges some start
  condition, \<open>init cols lines\<close> returns, and it has done this, in this order: stored
  backlight on (0xFF), waited 40 ms, opened one \<open>startWait\<close> transaction to address
  0x4E, pushed the 8-bit-mode function-set nibble 0x30 three times with the 4500 and
  150 microsecond waits after the first and the second and none after the third, pushed
  the 4-bit-mode function-set nibble 0x20 once, or-ed the two-line bit 0x08 into
  \<open>displayfunction\<close> exactly when \<open>lines > 1\<close> (so that, the bit being clear before, it
  is set afterwards if and only if \<open>lines > 1\<close>), stored \<open>numlines = lines\<close> and
  \<open>numcols = cols\<close>, stored the row offsets 0x00, 0x40, 0x00 + cols, 0x40 + cols, sent
  \<open>FUNCTIONSET | displayfunction\<close> as two nibbles, set \<open>displaycontrol\<close> to display-on
  only (0x04) and sent \<open>DISPLAYCONTROL | displaycontrol\<close>, sent \<open>CLEARDISPLAY\<close>, set
  \<open>displaymode\<close> to left entry with shift decrement (0x02) and sent
  \<open>ENTRYMODESET | displaymode\<close>, and issued stop.
\<close>

theorem init_sequence:
  assumes "\<exists>m\<ge>attempts w. start_ack env m"
  shows "\<exists>w'. I2C_LCD_init env cols lines w = Some w'
           \<and> backlight w' = 0xFF
           \<and> displayfunction w' =
                 (if lines > 1 then displayfunction w OR 0x08 else displayfunction w)
           \<and> (\<not> bit (displayfunction w) 3 \<longrightarrow> bit (displayfunction w') 3 = (lines > 1))
           \<and> numlines w' = lines
           \<and> numcols w' = cols
           \<and> row_offsets w' = Arr4 0x00 0x40 (0x00 + cols) (0x40 + cols)
           \<and> displaycontrol w' = 0x04
           \<and> displaymode w' = 0x02
           \<and> trace w' = trace w @ [Delay_ms 40, StartWait 0x4E]
                 @ strobe 0xFF 0x30 @ [Delay_us 4500]
                 @ strobe 0xFF 0x30 @ [Delay_us 150]
                 @ strobe 0xFF 0x30
                 @ strobe 0xFF 0x20
                 @ command_nibbles 0xFF (0x20 OR displayfunction w')
                 @ command_nibbles 0xFF (0x08 OR displaycontrol w')
                 @ command_nibbles 0xFF 0x01
                 @ command_nibbles 0xFF (0x04 OR displaymode w')
                 @ [Stop]"
proof -
  from init_call[OF assms, of cols lines] obtain w' where
    w': "I2C_LCD_init env cols lines w = Some w'"
    and fields: "backlight w' = 0xFF" "numlines w' = lines" "numcols w' = cols"
      "displayfunction w' = (if lines > 1 then displayfunction w OR 0x08 else displayfunction w)"
      "displaycontrol w' = 0x04" "displaymode w' = 0x02"
      "row_offsets w' = Arr4 0x00 0x40 (0x00 + cols) (0x40 + cols)"
    and bus: "trace w' = trace w @ [Delay_ms 40, StartWait 0x4E]
                 @ strobe 0xFF 0x30 @ [Delay_us 4500]
                 @ strobe 0xFF 0x30 @ [Delay_us 150]
                 @ strobe 0xFF 0x30
                 @ strobe 0xFF 0x20
                 @ command_nibbles 0xFF
                     (0x20 OR (if lines > 1 then displayfunction w OR 0x08 else displayfunction w))
                 @ command_nibbles 0xFF 0x0C
                 @ command_nibbles 0xFF 0x01
                 @ command_nibbles 0xFF 0x06
                 @ [Stop]"
    by fastforce
  have two_line: "\<not> bit (displayfunction w) 3 \<longrightarrow> bit (displayfunction w') 3 = (lines > 1)"
    by (simp add: fields(4) bit_simps)
  have "(0x08 :: u8) OR 0x04 = 0x0C" "(0x04 :: u8) OR 0x02 = 0x06"
    by simp_all
  with w' fields bus two_line show ?thesis
    by simp
qed

theorem init_sequence_witness:
  "(\<exists>m\<ge>attempts power_on. start_ack ideal_bus m)
   \<and> \<not> bit (displayfunction power_on) 3
   \<and> (\<exists>w'. I2C_LCD_init ideal_bus 20 4 power_on = Some w'
          \<and> backlight w' = 0xFF \<and> displayfunction w' = 0x08 \<and> numlines w' = 4
          \<and> numcols w' = 20 \<and> row_offsets w' = Arr4 0x00 0x40 0x14 0x54
          \<and> displaycontrol w' = 0x04 \<and> displaymode w' = 0x02
          \<and> trace w' =
               [Delay_ms 40, StartWait 0x4E,
                Write 0x3C, Write 0x38, Delay_us 100, Delay_us 4500,
                Write 0x3C, Write 0x38, Delay_us 100, Delay_us 150,
                Write 0x3C, Write 0x38, Delay_us 100,
                Write 0x2C, Write 0x28, Delay_us 100,
                Write 0x2C, Write 0x28, Delay_us 100, Write 0x8C, Write 0x88, Delay_us 100,
                Write 0x0C, Write 0x08, Delay_us 100, Write 0xCC, Write 0xC8, Delay_us 100,
                Write 0x0C, Write 0x08, Delay_us 100, Write 0x1C, Write 0x18, Delay_us 100,
                Write 0x0C, Write 0x08, Delay_us 100, Write 0x6C, Write 0x68, Delay_us 100,
                Stop])"
  using init_sequence[of power_on ideal_bus 20 4]
  by (clarsimp simp add: power_on_def ideal_bus_def command_nibbles_def strobe_def)

subsection \<open>Backlight\<close>

lemma backlight_call:
  assumes "\<exists>m\<ge>attempts w. start_ack env m"
  shows "\<exists>n>attempts w. I2C_LCD_backlight env state w =
           Some (w\<lparr>backlight := state,
                    trace := trace w @ [StartWait 0x4E]
                               @ command_nibbles state (0x08 OR displaycontrol w) @ [Stop],
                    attempts := n\<rparr>)"
proof -
  from assms have "\<exists>m\<ge>attempts (w\<lparr>backlight := state\<rparr>). start_ack env m"
    by simp
  from startWait_returns[OF this, of "0x4E"] obtain n where
    "attempts w < n"
    "I2C_startWait env 0x4E (w\<lparr>backlight := state\<rparr>) =
       Some (True, w\<lparr>backlight := state, trace := trace w @ [StartWait 0x4E], attempts := n\<rparr>)"
    by auto
  then show ?thesis
    by (intro exI[of _ n]) (simp add: I2C_LCD_backlight_def Let_def command4bit_eq I2C_stop_def)
qed

text \<open>
  C9. For every \<open>state\<close>, and a device that acknowledges some start condition,
  \<open>backlight state\<close> returns; it stores \<open>state\<close> as the backlight byte and then,
  inside one \<open>startWait\<close>/stop bracket, sends exactly one two-nibble command
  \<open>DISPLAYCONTROL | displaycontrol\<close> with the unchanged \<open>displaycontrol\<close> (pushed with
  the new backlight byte). \<open>displaycontrol\<close>, \<open>displaymode\<close>, \<open>displayfunction\<close>,
  \<open>numlines\<close>, \<open>numcols\<close> and the four row offsets are as before.
\<close>

theorem backlight_frame:
  assumes "\<exists>m\<ge>attempts w. start_ack env m"
  shows "\<exists>w'. I2C_LCD_backlight env state w = Some w'
           \<and> backlight w' = state
           \<and> trace w' = trace w @ [StartWait 0x4E]
                           @ command_nibbles state (0x08 OR displaycontrol w) @ [Stop]
           \<and> displaycontrol w' = displaycontrol w
           \<and> displaymode w' = displaymode w
           \<and> displayfunction w' = displayfunction w
           \<and> numlines w' = numlines w
           \<and> numcols w' = numcols w
           \<and> row_offsets w' = row_offsets w"
proof -
  from backlight_call[OF assms, of state] obtain n where
    "I2C_LCD_backlight env state w =
           Some (w\<lparr>backlight := state,
                    trace := trace w @ [StartWait 0x4E]
                               @ command_nibbles state (0x08 OR displaycontrol w) @ [Stop],
                    attempts := n\<rparr>)"
    by blast
  then show ?thesis
    by simp
qed

theorem backlight_frame_witness:
  "(\<exists>m\<ge>attempts power_on. start_ack ideal_bus m)
   \<and> (\<exists>w'. I2C_LCD_backlight ideal_bus 0xFF power_on = Some w'
          \<and> backlight w' = 0xFF
          \<and> trace w' = [StartWait 0x4E, Write 0x0C, Write 0x08, Delay_us 100,
                         Write 0x8C, Write 0x88, Delay_us 100, Stop]
          \<and> displaycontrol w' = 0)"
  using backlight_frame[of power_on ideal_bus "0xFF"]
  by (simp add: power_on_def ideal_bus_def command_nibbles_def strobe_def) blast

subsection \<open>Attribute toggles\<close>

lemma set_flag_idem:
  fixes x m f :: u8
  shows "(((x AND NOT m) OR f) AND NOT m) OR f = (x AND NOT m) OR f"
  by (auto simp: bit_eq_iff bit_simps)

lemma display_call:
  assumes "\<exists>m\<ge>attempts w. start_ack env m"
  shows "\<exists>n>attempts w. I2C_LCD_display env state w =
           Some (w\<lparr>displaycontrol := (displaycontrol w AND NOT 0x04) OR (if state \<noteq> 0 then 0x04 else 0),
                    trace := trace w @ [StartWait 0x4E]
                       @ command_nibbles (backlight w)
                           (0x08 OR ((displaycontrol w AND NOT 0x04) OR (if state \<noteq> 0 then 0x04 else 0)))
                       @ [Stop],
                    attempts := n\<rparr>)"
proof -
  define f where "f = (displaycontrol w AND NOT 0x04) OR (if state \<noteq> 0 then 0x04 else 0)"
  from assms have "\<exists>m\<ge>attempts (w\<lparr>displaycontrol := f\<rparr>). start_ack env m"
    by simp
  from startWait_returns[OF this, of "0x4E"] obtain n where n: "attempts w < n"
    "I2C_startWait env 0x4E (w\<lparr>displaycontrol := f\<rparr>) =
       Some (True, w\<lparr>displaycontrol := f, trace := trace w @ [StartWait 0x4E], attempts := n\<rparr>)"
    by auto
  have "I2C_LCD_display env state w =
          (case I2C_startWait env 0x4E (w\<lparr>displaycontrol := f\<rparr>) of
             None \<Rightarrow> None
           | Some (ack, w3) \<Rightarrow>
               Some (I2C_stop (I2C_LCD_command4bit env (0x08 OR displaycontrol w3) w3)))"
    unfolding I2C_LCD_display_def Let_def f_def by simp
  also have "\<dots> = Some (w\<lparr>displaycontrol := f,
                    trace := trace w @ [StartWait 0x4E]
                       @ command_nibbles (backlight w) (0x08 OR f) @ [Stop],
                    attempts := n\<rparr>)"
    by (simp add: n(2) command4bit_eq I2C_stop_def)
  finally show ?thesis
    unfolding f_def using n(1) by blast
qed

lemma display_twice:
  assumes "\<forall>n. \<exists>m\<ge>n. start_ack env m"
  shows "\<exists>w1 w2. I2C_LCD_display env state w = Some w1
           \<and> I2C_LCD_display env state w1 = Some w2
           \<and> displaycontrol w1 = (displaycontrol w AND NOT 0x04) OR (if state \<noteq> 0 then 0x04 else 0)
           \<and> displaycontrol w2 = displaycontrol w1
           \<and> globals w2 = globals w1
           \<and> trace w1 = trace w @ [StartWait 0x4E]
                 @ command_nibbles (backlight w) (0x08 OR displaycontrol w1) @ [Stop]
           \<and> trace w2 = trace w1 @ [StartWait 0x4E]
                 @ command_nibbles (backlight w) (0x08 OR displaycontrol w1) @ [Stop]"
proof -
  let ?f = "(displaycontrol w AND NOT 0x04) OR (if state \<noteq> 0 then 0x04 else 0)"
  from assms have "\<exists>m\<ge>attempts w. start_ack env m"
    by blast
  from display_call[OF this, of state] obtain n1 w1 where
    w1: "I2C_LCD_display env state w = Some w1"
        "w1 = w\<lparr>displaycontrol := ?f,
                  trace := trace w @ [StartWait 0x4E]
                     @ command_nibbles (backlight w) (0x08 OR ?f) @ [Stop],
                  attempts := n1\<rparr>"
    by blast
  from assms have "\<exists>m\<ge>attempts w1. start_ack env m"
    by blast
  from display_call[OF this, of state] obtain n2 w2 where
    w2: "I2C_LCD_display env state w1 = Some w2"
        "w2 = w1\<lparr>displaycontrol := (displaycontrol w1 AND NOT 0x04) OR (if state \<noteq> 0 then 0x04 else 0),
                   trace := trace w1 @ [StartWait 0x4E]
                     @ command_nibbles (backlight w1)
                         (0x08 OR ((displaycontrol w1 AND NOT 0x04) OR (if state \<noteq> 0 then 0x04 else 0)))
                     @ [Stop],
                   attempts := n2\<rparr>"
    by blast
  have f1: "displaycontrol w1 = ?f" and b1: "backlight w1 = backlight w"
    by (simp_all add: w1(2))
  have again: "(displaycontrol w1 AND NOT 0x04) OR (if state \<noteq> 0 then 0x04 else 0) = displaycontrol w1"
    unfolding f1 by (rule set_flag_idem)
  have w2': "w2 = w1\<lparr>displaycontrol := displaycontrol w1,
                   trace := trace w1 @ [StartWait 0x4E]
                     @ command_nibbles (backlight w1) (0x08 OR displaycontrol w1) @ [Stop],
                   attempts := n2\<rparr>"
    using w2(2) unfolding again .
  have f2: "displaycontrol w2 = displaycontrol w1"
    by (simp add: w2')
  have g: "globals w2 = globals w1"
    by (simp add: globals_def w2')
  have t1: "trace w1 = trace w @ [StartWait 0x4E]
                 @ command_nibbles (backlight w) (0x08 OR displaycontrol w1) @ [Stop]"
    by (simp add: w1(2))
  have t2: "trace w2 = trace w1 @ [StartWait 0x4E]
                 @ command_nibbles (backlight w) (0x08 OR displaycontrol w1) @ [Stop]"
    by (simp add: w2' b1)
  from w1(1) w2(1) f1 f2 g t1 t2 show ?thesis
    by blast
qed

lemma cursor_call:
  assumes "\<exists>m\<ge>attempts w. start_ack env m"
  shows "\<exists>n>attempts w. I2C_LCD_cursor env state w =
           Some (w\<lparr>displaycontrol := (displaycontrol w AND NOT 0x02) OR (if state \<noteq> 0 then 0x02 else 0),
                    trace := trace w @ [StartWait 0x4E]
                       @ command_nibbles (backlight w)
                           (0x08 OR ((displaycontrol w AND NOT 0x02) OR (if state \<noteq> 0 then 0x02 else 0)))
                       @ [Stop],
                    attempts := n\<rparr>)"
proof -
  define f where "f = (displaycontrol w AND NOT 0x02) OR (if state \<noteq> 0 then 0x02 else 0)"
  from assms have "\<exists>m\<ge>attempts (w\<lparr>displaycontrol := f\<rparr>). start_ack env m"
    by simp
  from startWait_returns[OF this, of "0x4E"] obtain n where n: "attempts w < n"
    "I2C_startWait env 0x4E (w\<lparr>displaycontrol := f\<rparr>) =
       Some (True, w\<lparr>displaycontrol := f, trace := trace w @ [StartWait 0x4E], attempts := n\<rparr>)"
    by auto
  have "I2C_LCD_cursor env state w =
          (case I2C_startWait env 0x4E (w\<lparr>displaycontrol := f\<rparr>) of
             None \<Rightarrow> None
           | Some (ack, w3) \<Rightarrow>
               Some (I2C_stop (I2C_LCD_command4bit env (0x08 OR displaycontrol w3) w3)))"
    unfolding I2C_LCD_cursor_def Let_def f_def by simp
  also have "\<dots> = Some (w\<lparr>displaycontrol := f,
                    trace := trace w @ [StartWait 0x4E]
                       @ command_nibbles (backlight w) (0x08 OR f) @ [Stop],
                    attempts := n\<rparr>)"
    by (simp add: n(2) command4bit_eq I2C_stop_def)
  finally show ?thesis
    unfolding f_def using n(1) by blast
qed

lemma cursor_twice:
  assumes "\<forall>n. \<exists>m\<ge>n. start_ack env m"
  shows "\<exists>w1 w2. I2C_LCD_cursor env state w = Some w1
           \<and> I2C_LCD_cursor env state w1 = Some w2
           \<and> displaycontrol w1 = (displaycontrol w AND NOT 0x02) OR (if state \<noteq> 0 then 0x02 else 0)
           \<and> displaycontrol w2 = displaycontrol w1
           \<and> globals w2 = globals w1
           \<and> trace w1 = trace w @ [StartWait 0x4E]
                 @ command_nibbles (backlight w) (0x08 OR displaycontrol w1) @ [Stop]
           \<and> trace w2 = trace w1 @ [StartWait 0x4E]
                 @ command_nibbles (backlight w) (0x08 OR displaycontrol w1) @ [Stop]"
proof -
  let ?f = "(displaycontrol w AND NOT 0x02) OR (if state \<noteq> 0 then 0x02 else 0)"
  from assms have "\<exists>m\<ge>attempts w. start_ack env m"
    by blast
  from cursor_call[OF this, of state] obtain n1 w1 where
    w1: "I2C_LCD_cursor env state w = Some w1"
        "w1 = w\<lparr>displaycontrol := ?f,
                  trace := trace w @ [StartWait 0x4E]
                     @ command_nibbles (backlight w) (0x08 OR ?f) @ [Stop],
                  attempts := n1\<rparr>"
    by blast
  from assms have "\<exists>m\<ge>attempts w1. start_ack env m"
    by blast
  from cursor_call[OF this, of state] obtain n2 w2 where
    w2: "I2C_LCD_cursor env state w1 = Some w2"
        "w2 = w1\<lparr>displaycontrol := (displaycontrol w1 AND NOT 0x02) OR (if state \<noteq> 0 then 0x02 else 0),
                   trace := trace w1 @ [StartWait 0x4E]
                     @ command_nibbles (backlight w1)
                         (0x08 OR ((displaycontrol w1 AND NOT 0x02) OR (if state \<noteq> 0 then 0x02 else 0)))
                     @ [Stop],
                   attempts := n2\<rparr>"
    by blast
  have f1: "displaycontrol w1 = ?f" and b1: "backlight w1 = backlight w"
    by (simp_all add: w1(2))
  have again: "(displaycontrol w1 AND NOT 0x02) OR (if state \<noteq> 0 then 0x02 else 0) = displaycontrol w1"
    unfolding f1 by (rule set_flag_idem)
  have w2': "w2 = w1\<lparr>displaycontrol := displaycontrol w1,
                   trace := trace w1 @ [StartWait 0x4E]
                     @ command_nibbles (backlight w1) (0x08 OR displaycontrol w1) @ [Stop],
                   attempts := n2\<rparr>"
    using w2(2) unfolding again .
  have f2: "displaycontrol w2 = displaycontrol w1"
    by (simp add: w2')
  have g: "globals w2 = globals w1"
    by (simp add: globals_def w2')
  have t1: "trace w1 = trace w @ [StartWait 0x4E]
                 @ command_nibbles (backlight w) (0x08 OR displaycontrol w1) @ [Stop]"
    by (simp add: w1(2))
  have t2: "trace w2 = trace w1 @ [StartWait 0x4E]
                 @ command_nibbles (backlight w) (0x08 OR displaycontrol w1) @ [Stop]"
    by (simp add: w2' b1)
  from w1(1) w2(1) f1 f2 g t1 t2 show ?thesis
    by blast
qed

lemma blink_call:
  assumes "\<exists>m\<ge>attempts w. start_ack env m"
  shows "\<exists>n>attempts w. I2C_LCD_blink env state w =
           Some (w\<lparr>displaycontrol := (displaycontrol w AND NOT 0x01) OR (if state \<noteq> 0 then 0x01 else 0),
                    trace := trace w @ [StartWait 0x4E]
                       @ command_nibbles (backlight w)
                           (0x08 OR ((displaycontrol w AND NOT 0x01) OR (if state \<noteq> 0 then 0x01 else 0)))
                       @ [Stop],
                    attempts := n\<rparr>)"
proof -
  define f where "f = (displaycontrol w AND NOT 0x01) OR (if state \<noteq> 0 then 0x01 else 0)"
  from assms have "\<exists>m\<ge>attempts (w\<lparr>displaycontrol := f\<rparr>). start_ack env m"
    by simp
  from startWait_returns[OF this, of "0x4E"] obtain n where n: "attempts w < n"
    "I2C_startWait env 0x4E (w\<lparr>displaycontrol := f\<rparr>) =
       Some (True, w\<lparr>displaycontrol := f, trace := trace w @ [StartWait 0x4E], attempts := n\<rparr>)"
    by auto
  have "I2C_LCD_blink env state w =
          (case I2C_startWait env 0x4E (w\<lparr>displaycontrol := f\<rparr>) of
             None \<Rightarrow> None
           | Some (ack, w3) \<Rightarrow>
               Some (I2C_stop (I2C_LCD_command4bit env (0x08 OR displaycontrol w3) w3)))"
    unfolding I2C_LCD_blink_def Let_def f_def by simp
  also have "\<dots> = Some (w\<lparr>displaycontrol := f,
                    trace := trace w @ [StartWait 0x4E]
                       @ command_nibbles (backlight w) (0x08 OR f) @ [Stop],
                    attempts := n\<rparr>)"
    by (simp add: n(2) command4bit_eq I2C_stop_def)
  finally show ?thesis
    unfolding f_def using n(1) by blast
qed

lemma blink_twice:
  assumes "\<forall>n. \<exists>m\<ge>n. start_ack env m"
  shows "\<exists>w1 w2. I2C_LCD_blink env state w = Some w1
           \<and> I2C_LCD_blink env state w1 = Some w2
           \<and> displaycontrol w1 = (displaycontrol w AND NOT 0x01) OR (if state \<noteq> 0 then 0x01 else 0)
           \<and> displaycontrol w2 = displaycontrol w1
           \<and> globals w2 = globals w1
           \<and> trace w1 = trace w @ [StartWait 0x4E]
                 @ command_nibbles (backlight w) (0x08 OR displaycontrol w1) @ [Stop]
           \<and> trace w2 = trace w1 @ [StartWait 0x4E]
                 @ command_nibbles (backlight w) (0x08 OR displaycontrol w1) @ [Stop]"
proof -
  let ?f = "(displaycontrol w AND NOT 0x01) OR (if state \<noteq> 0 then 0x01 else 0)"
  from assms have "\<exists>m\<ge>attempts w. start_ack env m"
    by blast
  from blink_call[OF this, of state] obtain n1 w1 where
    w1: "I2C_LCD_blink env state w = Some w1"
        "w1 = w\<lparr>displaycontrol := ?f,
                  trace := trace w @ [StartWait 0x4E]
                     @ command_nibbles (backlight w) (0x08 OR ?f) @ [Stop],
                  attempts := n1\<rparr>"
    by blast
  from assms have "\<exists>m\<ge>attempts w1. start_ack env m"
    by blast
  from blink_call[OF this, of state] obtain n2 w2 where
    w2: "I2C_LCD_blink env state w1 = Some w2"
        "w2 = w1\<lparr>displaycontrol := (displaycontrol w1 AND NOT 0x01) OR (if state \<noteq> 0 then 0x01 else 0),
                   trace := trace w1 @ [StartWait 0x4E]
                     @ command_nibbles (backlight w1)
                         (0x08 OR ((displaycontrol w1 AND NOT 0x01) OR (if state \<noteq> 0 then 0x01 else 0)))
                     @ [Stop],
                   attempts := n2\<rparr>"
    by blast
  have f1: "displaycontrol w1 = ?f" and b1: "backlight w1 = backlight w"
    by (simp_all add: w1(2))
  have again: "(displaycontrol w1 AND NOT 0x01) OR (if state \<noteq> 0 then 0x01 else 0) = displaycontrol w1"
    unfolding f1 by (rule set_flag_idem)
  have w2': "w2 = w1\<lparr>displaycontrol := displaycontrol w1,
                   trace := trace w1 @ [StartWait 0x4E]
                     @ command_nibbles (backlight w1) (0x08 OR displaycontrol w1) @ [Stop],
                   attempts := n2\<rparr>"
    using w2(2) unfolding again .
  have f2: "displaycontrol w2 = displaycontrol w1"
    by (simp add: w2')
  have g: "globals w2 = globals w1"
    by (simp add: globals_def w2')
  have t1: "trace w1 = trace w @ [StartWait 0x4E]
                 @ command_nibbles (backlight w) (0x08 OR displaycontrol w1) @ [Stop]"
    by (simp add: w1(2))
  have t2: "trace w2 = trace w1 @ [StartWait 0x4E]
                 @ command_nibbles (backlight w) (0x08 OR displaycontrol w1) @ [Stop]"
    by (simp add: w2' b1)
  from w1(1) w2(1) f1 f2 g t1 t2 show ?thesis
    by blast
qed

lemma cursorFixPosition_call:
  assumes "\<exists>m\<ge>attempts w. start_ack env m"
  shows "\<exists>n>attempts w. I2C_LCD_cursorFixPosition env state w =
           Some (w\<lparr>displaymode := (displaymode w AND NOT 0x01) OR (if state \<noteq> 0 then 0x01 else 0),
                    trace := trace w @ [StartWait 0x4E]
                       @ command_nibbles (backlight w)
                           (0x04 OR ((displaymode w AND NOT 0x01) OR (if state \<noteq> 0 then 0x01 else 0)))
                       @ [Stop],
                    attempts := n\<rparr>)"
proof -
  define f where "f = (displaymode w AND NOT 0x01) OR (if state \<noteq> 0 then 0x01 else 0)"
  from assms have "\<exists>m\<ge>attempts (w\<lparr>displaymode := f\<rparr>). start_ack env m"
    by simp
  from startWait_returns[OF this, of "0x4E"] obtain n where n: "attempts w < n"
    "I2C_startWait env 0x4E (w\<lparr>displaymode := f\<rparr>) =
       Some (True, w\<lparr>displaymode := f, trace := trace w @ [StartWait 0x4E], attempts := n\<rparr>)"
    by auto
  have "I2C_LCD_cursorFixPosition env state w =
          (case I2C_startWait env 0x4E (w\<lparr>displaymode := f\<rparr>) of
             None \<Rightarrow> None
           | Some (ack, w3) \<Rightarrow>
               Some (I2C_stop (I2C_LCD_command4bit env (0x04 OR displaymode w3) w3)))"
    unfolding I2C_LCD_cursorFixPosition_def Let_def f_def by simp
  also have "\<dots> = Some (w\<lparr>displaymode := f,
                    trace := trace w @ [StartWait 0x4E]
                       @ command_nibbles (backlight w) (0x04 OR f) @ [Stop],
                    attempts := n\<rparr>)"
    by (simp add: n(2) command4bit_eq I2C_stop_def)
  finally show ?thesis
    unfolding f_def using n(1) by blast
qed

lemma cursorFixPosition_twice:
  assumes "\<forall>n. \<exists>m\<ge>n. start_ack env m"
  shows "\<exists>w1 w2. I2C_LCD_cursorFixPosition env state w = Some w1
           \<and> I2C_LCD_cursorFixPosition env state w1 = Some w2
           \<and> displaymode w1 = (displaymode w AND NOT 0x01) OR (if state \<noteq> 0 then 0x01 else 0)
           \<and> displaymode w2 = displaymode w1
           \<and> globals w2 = globals w1
           \<and> trace w1 = trace w @ [StartWait 0x4E]
                 @ command_nibbles (backlight w) (0x04 OR displaymode w1) @ [Stop]
           \<and> trace w2 = trace w1 @ [StartWait 0x4E]
                 @ command_nibbles (backlight w) (0x04 OR displaymode w1) @ [Stop]"
proof -
  let ?f = "(displaymode w AND NOT 0x01) OR (if state \<noteq> 0 then 0x01 else 0)"
  from assms have "\<exists>m\<ge>attempts w. start_ack env m"
    by blast
  from cursorFixPosition_call[OF this, of state] obtain n1 w1 where
    w1: "I2C_LCD_cursorFixPosition env state w = Some w1"
        "w1 = w\<lparr>displaymode := ?f,
                  trace := trace w @ [StartWait 0x4E]
                     @ command_nibbles (backlight w) (0x04 OR ?f) @ [Stop],
                  attempts := n1\<rparr>"
    by blast
  from assms have "\<exists>m\<ge>attempts w1. start_ack env m"
    by blast
  from cursorFixPosition_call[OF this, of state] obtain n2 w2 where
    w2: "I2C_LCD_cursorFixPosition env state w1 = Some w2"
        "w2 = w1\<lparr>displaymode := (displaymode w1 AND NOT 0x01) OR (if state \<noteq> 0 then 0x01 else 0),
                   trace := trace w1 @ [StartWait 0x4E]
                     @ command_nibbles (backlight w1)
                         (0x04 OR ((displaymode w1 AND NOT 0x01) OR (if state \<noteq> 0 then 0x01 else 0)))
                     @ [Stop],
                   attempts := n2\<rparr>"
    by blast
  have f1: "displaymode w1 = ?f" and b1: "backlight w1 = backlight w"
    by (simp_all add: w1(2))
  have again: "(displaymode w1 AND NOT 0x01) OR (if state \<noteq> 0 then 0x01 else 0) = displaymode w1"
    unfolding f1 by (rule set_flag_idem)
  have w2': "w2 = w1\<lparr>displaymode := displaymode w1,
                   trace := trace w1 @ [StartWait 0x4E]
                     @ command_nibbles (backlight w1) (0x04 OR displaymode w1) @ [Stop],
                   attempts := n2\<rparr>"
    using w2(2) unfolding again .
  have f2: "displaymode w2 = displaymode w1"
    by (simp add: w2')
  have g: "globals w2 = globals w1"
    by (simp add: globals_def w2')
  have t1: "trace w1 = trace w @ [StartWait 0x4E]
                 @ command_nibbles (backlight w) (0x04 OR displaymode w1) @ [Stop]"
    by (simp add: w1(2))
  have t2: "trace w2 = trace w1 @ [StartWait 0x4E]
                 @ command_nibbles (backlight w) (0x04 OR displaymode w1) @ [Stop]"
    by (simp add: w2' b1)
  from w1(1) w2(1) f1 f2 g t1 t2 show ?thesis
    by blast
qed

text \<open>
  C8. The four attribute toggles \<open>display\<close>, \<open>cursor\<close>, \<open>blink\<close> and
  \<open>cursorFixPosition\<close> are idempotent under a repeated identical call. For every
  \<open>state\<close> byte (read as a boolean: zero or not) and a device that always acknowledges
  a start condition sooner or later, both calls return; the first stores the flags byte
  with the toggle's bit cleared and then set from \<open>state\<close>; the second leaves that byte,
  and every other driver variable, as the first left it; and each call sends, in its
  own \<open>startWait\<close>/stop bracket, the same command byte: the opcode or-ed with the whole
  flags byte. \<open>cursor\<close> called twice with a true \<open>state\<close> is one instance.
\<close>

theorem toggles_idempotent:
  assumes "\<forall>n. \<exists>m\<ge>n. start_ack env m"
  shows "(\<exists>w1 w2. I2C_LCD_display env state w = Some w1
            \<and> I2C_LCD_display env state w1 = Some w2
            \<and> displaycontrol w1 = (displaycontrol w AND NOT 0x04) OR (if state \<noteq> 0 then 0x04 else 0)
            \<and> displaycontrol w2 = displaycontrol w1
            \<and> globals w2 = globals w1
            \<and> trace w1 = trace w @ [StartWait 0x4E]
                  @ command_nibbles (backlight w) (0x08 OR displaycontrol w1) @ [Stop]
            \<and> trace w2 = trace w1 @ [StartWait 0x4E]
                  @ command_nibbles (backlight w) (0x08 OR displaycontrol w1) @ [Stop])
       \<and> (\<exists>w1 w2. I2C_LCD_cursor env state w = Some w1
            \<and> I2C_LCD_cursor env state w1 = Some w2
            \<and> displaycontrol w1 = (displaycontrol w AND NOT 0x02) OR (if state \<noteq> 0 then 0x02 else 0)
            \<and> displaycontrol w2 = displaycontrol w1
            \<and> globals w2 = globals w1
            \<and> trace w1 = trace w @ [StartWait 0x4E]
                  @ command_nibbles (backlight w) (0x08 OR displaycontrol w1) @ [Stop]
            \<and> trace w2 = trace w1 @ [StartWait 0x4E]
                  @ command_nibbles (backlight w) (0x08 OR displaycontrol w1) @ [Stop])
       \<and> (\<exists>w1 w2. I2C_LCD_blink env state w = Some w1
            \<and> I2C_LCD_blink env state w1 = Some w2
            \<and> displaycontrol w1 = (displaycontrol w AND NOT 0x01) OR (if state \<noteq> 0 then 0x01 else 0)
            \<and> displaycontrol w2 = displaycontrol w1
            \<and> globals w2 = globals w1
            \<and> trace w1 = trace w @ [StartWait 0x4E]
                  @ command_nibbles (backlight w) (0x08 OR displaycontrol w1) @ [Stop]
            \<and> trace w2 = trace w1 @ [StartWait 0x4E]
                  @ command_nibbles (backlight w) (0x08 OR displaycontrol w1) @ [Stop])
       \<and> (\<exists>w1 w2. I2C_LCD_cursorFixPosition env state w = Some w1
            \<and> I2C_LCD_cursorFixPosition env state w1 = Some w2
            \<and> displaymode w1 = (displaymode w AND NOT 0x01) OR (if state \<noteq> 0 then 0x01 else 0)
            \<and> displaymode w2 = displaymode w1
            \<and> globals w2 = globals w1
            \<and> trace w1 = trace w @ [StartWait 0x4E]
                  @ command_nibbles (backlight w) (0x04 OR displaymode w1) @ [Stop]
            \<and> trace w2 = trace w1 @ [StartWait 0x4E]
                  @ command_nibbles (backlight w) (0x04 OR displaymode w1) @ [Stop])"
  using display_twice[OF assms, of state w] cursor_twice[OF assms, of state w]
        blink_twice[OF assms, of state w] cursorFixPosition_twice[OF assms, of state w]
  by (intro conjI)

theorem toggles_idempotent_witness:
  "(\<forall>n. \<exists>m\<ge>n. start_ack ideal_bus m)
   \<and> (\<exists>w1 w2. I2C_LCD_cursor ideal_bus 1 power_on = Some w1
          \<and> I2C_LCD_cursor ideal_bus 1 w1 = Some w2
          \<and> displaycontrol w1 = 0x02
          \<and> displaycontrol w2 = 0x02
          \<and> trace w1 = [StartWait 0x4E, Write 0x04, Write 0x00, Delay_us 100,
                         Write 0xA4, Write 0xA0, Delay_us 100, Stop]
          \<and> trace w2 = trace w1 @ [StartWait 0x4E, Write 0x04, Write 0x00, Delay_us 100,
                                    Write 0xA4, Write 0xA0, Delay_us 100, Stop])"
proof -
  have ack: "\<forall>n. \<exists>m\<ge>n. start_ack ideal_bus m"
    by (auto simp: ideal_bus_def)
  moreover have "\<exists>w1 w2. I2C_LCD_cursor ideal_bus 1 power_on = Some w1
          \<and> I2C_LCD_cursor ideal_bus 1 w1 = Some w2
          \<and> displaycontrol w1 = 0x02
          \<and> displaycontrol w2 = 0x02
          \<and> trace w1 = [StartWait 0x4E, Write 0x04, Write 0x00, Delay_us 100,
                         Write 0xA4, Write 0xA0, Delay_us 100, Stop]
          \<and> trace w2 = trace w1 @ [StartWait 0x4E, Write 0x04, Write 0x00, Delay_us 100,
                                    Write 0xA4, Write 0xA0, Delay_us 100, Stop]"
    using toggles_idempotent[OF ack, of 1 power_on]
    by (clarsimp simp add: power_on_def command_nibbles_def strobe_def)
  ultimately show ?thesis
    by (rule conjI)
qed

subsection \<open>Custom characters\<close>

lemma createChar_loop_from:
  assumes "unat i \<le> 8" and "8 \<le> length charmap"
  shows "I2C_LCD_createChar_loop env charmap i w =
           Inr (w\<lparr>trace := trace w @
                  concat (map (\<lambda>c. data_nibbles (backlight w) (c AND 0x1F))
                            (take (8 - unat i) (drop (unat i) charmap)))\<rparr>)"
  using assms
proof (induction env charmap i w rule: I2C_LCD_createChar_loop.induct)
  case (1 env charmap i w)
  show ?case
  proof (cases "i < 8")
    case True
    then have lt: "unat i < 8"
      by (simp add: word_less_nat_alt)
    then have suc: "unat (i + 1) = Suc (unat i)"
      by (simp add: unat_word_ariths)
    from lt "1.prems" have inb: "unat i < length charmap"
      by simp
    from lt have split: "take (8 - unat i) (drop (unat i) charmap) =
        charmap ! unat i # take (8 - Suc (unat i)) (drop (Suc (unat i)) charmap)"
      using inb by (simp add: Cons_nth_drop_Suc[symmetric] Suc_diff_Suc[symmetric, of "unat i" 8])
    from lt have "unat (i + 1) \<le> 8"
      by (simp add: suc)
    from "1.IH"[OF True inb this "1.prems"(2)] True inb show ?thesis
      by (subst I2C_LCD_createChar_loop.simps) (simp add: suc split write_eq)
  next
    case False
    then have "unat i \<ge> 8"
      by (simp add: word_less_nat_alt)
    with "1.prems" have "unat i = 8"
      by simp
    with False show ?thesis
      by (subst I2C_LCD_createChar_loop.simps) simp
  qed
qed

lemma list8_nth:
  assumes "length xs = 8"
  shows "xs = [xs ! 0, xs ! 1, xs ! 2, xs ! 3, xs ! 4, xs ! 5, xs ! 6, xs ! 7]"
proof (rule nth_equalityI)
  show "length xs = length [xs ! 0, xs ! 1, xs ! 2, xs ! 3, xs ! 4, xs ! 5, xs ! 6, xs ! 7]"
    using assms by simp
next
  fix i assume "i < length xs"
  with assms have "i \<in> {0, 1, 2, 3, 4, 5, 6, 7}"
    by simp arith
  then show "xs ! i = [xs ! 0, xs ! 1, xs ! 2, xs ! 3, xs ! 4, xs ! 5, xs ! 6, xs ! 7] ! i"
    by auto
qed

lemma location_mask: "(9 :: u8) AND 0x7 = 1" "(1 :: u8) AND 0x7 = 1"
  "((location :: u8) AND 0x7) AND 0x7 = location AND 0x7"
  by (simp_all add: u8_bits_eq bit_simps)


lemma createChar_call:
  assumes "\<exists>m\<ge>attempts w. start_ack env m" and "length charmap = 8"
  shows "\<exists>n>attempts w. I2C_LCD_createChar env location charmap w =
           Some (Inr (w\<lparr>trace := trace w @ [StartWait 0x4E]
                 @ command_nibbles (backlight w) (0x40 OR push_bit 3 (location AND 0x07))
                 @ concat (map (\<lambda>c. data_nibbles (backlight w) (c AND 0x1F)) charmap)
                 @ [Stop],
               attempts := n\<rparr>))"
proof -
  from startWait_returns[OF assms(1), of "0x4E"] obtain n where n: "attempts w < n"
    "I2C_startWait env 0x4E w =
       Some (True, w\<lparr>trace := trace w @ [StartWait 0x4E], attempts := n\<rparr>)"
    by blast
  have loop: "I2C_LCD_createChar_loop env charmap 0 v =
           Inr (v\<lparr>trace := trace v @
                  concat (map (\<lambda>c. data_nibbles (backlight v) (c AND 0x1F)) charmap)\<rparr>)"
    for v
    using createChar_loop_from[of 0 charmap env v] assms(2) by simp
  show ?thesis
    by (intro exI[of _ n] conjI n(1))
       (simp add: I2C_LCD_createChar_def Let_def n(2) command4bit_eq loop I2C_stop_def)
qed

text \<open>
  C6. For every location byte and every 8-entry bitmap, and a device that acknowledges
  some start condition, \<open>createChar location charmap\<close> returns without fault; inside
  one \<open>startWait\<close>/stop transaction it sends the single command
  \<open>SETCGRAMADDR | ((location & 7) << 3)\<close> and then exactly eight data bytes,
  \<open>charmap[i] & 0x1F\<close> for \<open>i\<close> = 0..7 in this order; no driver variable changes.
  The location enters only through its low three bits, so location 9 behaves exactly
  as location 1.
\<close>

theorem createChar_sequence:
  assumes "\<exists>m\<ge>attempts w. start_ack env m" and "length charmap = 8"
  shows "\<exists>w'. I2C_LCD_createChar env location charmap w = Some (Inr w')
           \<and> trace w' = trace w @ [StartWait 0x4E]
                 @ command_nibbles (backlight w) (0x40 OR push_bit 3 (location AND 0x07))
                @ data_nibbles (backlight w) (charmap ! 0 AND 0x1F) 
                @ data_nibbles (backlight w) (charmap ! 1 AND 0x1F) 
                @ data_nibbles (backlight w) (charmap ! 2 AND 0x1F) 
                @ data_nibbles (backlight w) (charmap ! 3 AND 0x1F) 
                @ data_nibbles (backlight w) (charmap ! 4 AND 0x1F) 
                @ data_nibbles (backlight w) (charmap ! 5 AND 0x1F) 
                @ data_nibbles (backlight w) (charmap ! 6 AND 0x1F) 
                @ data_nibbles (backlight w) (charmap ! 7 AND 0x1F)
                 @ [Stop]
           \<and> globals w' = globals w
           \<and> I2C_LCD_createChar env location charmap w =
               I2C_LCD_createChar env (location AND 0x07) charmap w
           \<and> I2C_LCD_createChar env 9 charmap w = I2C_LCD_createChar env 1 charmap w"
proof -
  from createChar_call[OF assms, of location] obtain w' where
    w': "I2C_LCD_createChar env location charmap w = Some (Inr w')"
    and bus: "trace w' = trace w @ [StartWait 0x4E]
                 @ command_nibbles (backlight w) (0x40 OR push_bit 3 (location AND 0x07))
                 @ concat (map (\<lambda>c. data_nibbles (backlight w) (c AND 0x1F)) charmap)
                 @ [Stop]"
    and frame: "globals w' = globals w"
    by (fastforce simp: globals_def)
  have rows: "concat (map (\<lambda>c. data_nibbles (backlight w) (c AND 0x1F)) charmap) =
      data_nibbles (backlight w) (charmap ! 0 AND 0x1F)
      @ data_nibbles (backlight w) (charmap ! 1 AND 0x1F)
      @ data_nibbles (backlight w) (charmap ! 2 AND 0x1F)
      @ data_nibbles (backlight w) (charmap ! 3 AND 0x1F)
      @ data_nibbles (backlight w) (charmap ! 4 AND 0x1F)
      @ data_nibbles (backlight w) (charmap ! 5 AND 0x1F)
      @ data_nibbles (backlight w) (charmap ! 6 AND 0x1F)
      @ data_nibbles (backlight w) (charmap ! 7 AND 0x1F)"
    by (subst list8_nth[OF assms(2)]) simp
  have masked: "I2C_LCD_createChar env l charmap w =
                I2C_LCD_createChar env (l AND 0x07) charmap w" for l
    by (simp add: I2C_LCD_createChar_def Let_def location_mask)
  have "I2C_LCD_createChar env 9 charmap w = I2C_LCD_createChar env 1 charmap w"
    by (subst masked[of 9], subst masked[of 1]) (simp only: location_mask)
  with w' bus frame masked[of location] show ?thesis
    unfolding rows by simp
qed

theorem createChar_sequence_witness:
  "(\<exists>m\<ge>attempts power_on. start_ack ideal_bus m)
   \<and> length [0x0E, 0x1F, 0x11, 0xFF, 0x00, 0x04, 0xE4, 0x1B] = 8
   \<and> (\<exists>w'. I2C_LCD_createChar ideal_bus 9 [0x0E, 0x1F, 0x11, 0xFF, 0x00, 0x04, 0xE4, 0x1B] power_on = Some (Inr w')
          \<and> trace w' =
              [StartWait 0x4E, Write 0x44, Write 0x40, Delay_us 100,
               Write 0x84, Write 0x80, Delay_us 100, Write 0x05, Write 0x01,
               Delay_us 100, Write 0xE5, Write 0xE1, Delay_us 100,
               Write 0x15, Write 0x11, Delay_us 100, Write 0xF5, Write 0xF1,
               Delay_us 100, Write 0x15, Write 0x11, Delay_us 100,
               Write 0x15, Write 0x11, Delay_us 100, Write 0x15, Write 0x11,
               Delay_us 100, Write 0xF5, Write 0xF1, Delay_us 100,
               Write 0x05, Write 0x01, Delay_us 100, Write 0x05, Write 0x01,
               Delay_us 100, Write 0x05, Write 0x01, Delay_us 100,
               Write 0x45, Write 0x41, Delay_us 100, Write 0x05, Write 0x01,
               Delay_us 100, Write 0x45, Write 0x41, Delay_us 100,
               Write 0x15, Write 0x11, Delay_us 100, Write 0xB5, Write 0xB1,
               Delay_us 100, Stop])"
  using createChar_sequence[of power_on ideal_bus "[0x0E, 0x1F, 0x11, 0xFF, 0x00, 0x04, 0xE4, 0x1B]" 9]
  by (clarsimp simp add: power_on_def ideal_bus_def command_nibbles_def data_nibbles_def strobe_def)

subsection \<open>Text output\<close>

lemma print_loop_never:
  assumes "I2C_LCD_print_loop env c i w = Some r"
  shows "\<not> (256 \<le> length c \<and> (\<forall>j<256. c ! j \<noteq> 0))"
proof (rule I2C_LCD_print_loop.raw_induct
         [where P = "\<lambda>env c i w r. \<not> (256 \<le> length c \<and> (\<forall>j<256. c ! j \<noteq> 0))",
          OF _ assms], goal_cases)
  case (1 loop env c i w r)
  show ?case
  proof
    assume long: "256 \<le> length c \<and> (\<forall>j<256. c ! j \<noteq> 0)"
    have "unat i < 256"
      using unsigned_less[of i, where 'a = nat] by simp
    with long have "unat i < length c" "c ! unat i \<noteq> 0"
      by simp_all
    with 1(2) have "loop env c (i + 1) (I2C_LCD_write env (c ! unat i) w) = Some r"
      by simp
    from 1(1)[OF this] long show False
      by simp
  qed
qed

lemma print_loop_to_terminator:
  assumes "0 \<notin> set s" and "length s \<le> 255" and "k \<le> length s"
  shows "I2C_LCD_print_loop env (s @ 0 # rest) (of_nat k) w =
           Some (Inr (w\<lparr>trace := trace w @
                        concat (map (data_nibbles (backlight w)) (drop k s))\<rparr>))"
  using assms(3)
proof (induction "length s - k" arbitrary: k w)
  case 0
  then have k: "k = length s"
    by simp
  from assms(2) have u: "unat (of_nat (length s) :: u8) = length s"
    by (simp add: unat_of_nat)
  show ?case
    unfolding k by (subst I2C_LCD_print_loop.simps) (simp add: u)
next
  case (Suc d)
  then have lt: "k < length s"
    by simp
  with assms(2) have u: "unat (of_nat k :: u8) = k"
    by (simp add: unat_of_nat)
  from lt assms(1) have nz: "s ! k \<noteq> 0"
    by (metis nth_mem)
  have next_i: "(of_nat k :: u8) + 1 = of_nat (Suc k)"
    by simp
  from Suc.hyps(2) lt have ih: "d = length s - Suc k" "Suc k \<le> length s"
    by simp_all
  have step: "drop k s = s ! k # drop (Suc k) s"
    using lt by (simp add: Cons_nth_drop_Suc)
  from lt have inb: "k < Suc (length s + length rest)"
    by simp
  have "I2C_LCD_print_loop env (s @ 0 # rest) (of_nat k) w =
          I2C_LCD_print_loop env (s @ 0 # rest) (of_nat k + 1)
            (I2C_LCD_write env ((s @ 0 # rest) ! k) w)"
    by (subst I2C_LCD_print_loop.simps) (simp add: u lt inb nz nth_append)
  also have "\<dots> = I2C_LCD_print_loop env (s @ 0 # rest) (of_nat (Suc k))
            (w\<lparr>trace := trace w @ data_nibbles (backlight w) (s ! k)\<rparr>)"
    by (simp add: write_eq nth_append lt ac_simps)
  also have "\<dots> = Some (Inr (w\<lparr>trace := trace w @ data_nibbles (backlight w) (s ! k) @
                        concat (map (data_nibbles (backlight w)) (drop (Suc k) s))\<rparr>))"
    unfolding Suc.hyps(1)[OF ih] by simp
  finally show ?case
    by (simp add: step)
qed


lemma foldl_write:
  "foldl (\<lambda>v c. I2C_LCD_write env c v) v s =
     v\<lparr>trace := trace v @ concat (map (data_nibbles (backlight v)) s)\<rparr>"
  by (induction s arbitrary: v) (simp_all add: write_eq)

lemma print_call:
  assumes "\<exists>m\<ge>attempts w. start_ack env m" and "0 \<notin> set s" and "length s \<le> 255"
  shows "\<exists>n>attempts w. I2C_LCD_print env (s @ 0 # rest) w =
           Some (Inr (w\<lparr>trace := trace w @ [StartWait 0x4E]
                          @ concat (map (data_nibbles (backlight w)) s) @ [Stop],
                        attempts := n\<rparr>))"
proof -
  from startWait_returns[OF assms(1), of "0x4E"] obtain n where n: "attempts w < n"
    "I2C_startWait env 0x4E w =
       Some (True, w\<lparr>trace := trace w @ [StartWait 0x4E], attempts := n\<rparr>)"
    by blast
  have loop: "I2C_LCD_print_loop env (s @ 0 # rest) 0 v =
           Some (Inr (v\<lparr>trace := trace v @ concat (map (data_nibbles (backlight v)) s)\<rparr>))"
    for v
    using print_loop_to_terminator[OF assms(2,3), of 0 env rest v] by simp
  show ?thesis
    by (intro exI[of _ n] conjI n(1)) (simp add: I2C_LCD_print_def n(2) loop I2C_stop_def)
qed

text \<open>
  Texts of at most 255 characters. For every character array with at most 255
  characters before its first zero byte, and a device that acknowledges some start
  condition, \<open>print\<close> returns without fault, having opened exactly one \<open>startWait\<close>
  transaction, called \<open>write c\<close> exactly once for each character before the
  terminator, in the order of the text, and issued exactly one stop; no driver
  variable changes. For the text that is only a terminator the transaction is opened
  and closed with no write in between.
\<close>

theorem print_one_transaction:
  assumes "\<exists>m\<ge>attempts w. start_ack env m" and "0 \<notin> set s" and "length s \<le> 255"
  shows "\<exists>w'. I2C_LCD_print env (s @ 0 # rest) w = Some (Inr w')
           \<and> w' = I2C_stop (foldl (\<lambda>v c. I2C_LCD_write env c v)
                      (w\<lparr>trace := trace w @ [StartWait 0x4E], attempts := attempts w'\<rparr>) s)
           \<and> trace w' = trace w @ [StartWait 0x4E]
                 @ concat (map (data_nibbles (backlight w)) s) @ [Stop]
           \<and> globals w' = globals w
           \<and> (\<exists>w0. I2C_LCD_print env (0 # rest) w = Some (Inr w0)
                  \<and> trace w0 = trace w @ [StartWait 0x4E, Stop])"
proof -
  from print_call[OF assms, of rest] obtain n where
    full: "I2C_LCD_print env (s @ 0 # rest) w =
           Some (Inr (w\<lparr>trace := trace w @ [StartWait 0x4E]
                          @ concat (map (data_nibbles (backlight w)) s) @ [Stop],
                        attempts := n\<rparr>))"
    by blast
  from print_call[OF assms(1), of "[]" rest] obtain n0 where
    "I2C_LCD_print env ([] @ 0 # rest) w =
           Some (Inr (w\<lparr>trace := trace w @ [StartWait 0x4E]
                          @ concat (map (data_nibbles (backlight w)) []) @ [Stop],
                        attempts := n0\<rparr>))"
    by auto
  then have empty: "\<exists>w0. I2C_LCD_print env (0 # rest) w = Some (Inr w0)
                  \<and> trace w0 = trace w @ [StartWait 0x4E, Stop]"
    by simp
  from full empty show ?thesis
    by (simp add: foldl_write I2C_stop_def globals_def)
qed

theorem print_one_transaction_witness:
  "(\<exists>m\<ge>attempts power_on. start_ack ideal_bus m)
   \<and> 0 \<notin> set [0x48, 0x69 :: u8]
   \<and> length [0x48, 0x69 :: u8] \<le> 255
   \<and> (\<exists>w'. I2C_LCD_print ideal_bus [0x48, 0x69, 0] power_on = Some (Inr w')
          \<and> trace w' =
              [StartWait 0x4E, Write 0x45, Write 0x41, Delay_us 100,
               Write 0x85, Write 0x81, Delay_us 100, Write 0x65, Write 0x61,
               Delay_us 100, Write 0x95, Write 0x91, Delay_us 100, Stop])
   \<and> (\<exists>w0. I2C_LCD_print ideal_bus [0] power_on = Some (Inr w0)
          \<and> trace w0 = [StartWait 0x4E, Stop])"
  using print_one_transaction[of power_on ideal_bus "[0x48, 0x69]" "[]"]
  by (clarsimp simp add: power_on_def ideal_bus_def data_nibbles_def strobe_def)

text \<open>
  C5. For every character array, \<open>print\<close> is to open one transaction, write each
  character before the first terminator once, in order, and then issue one stop. The
  loop of \<open>print\<close> sets out to do this, and for up to 255 characters it does
  (\<open>print_one_transaction\<close>). Its counter, however, is a \<open>uint8_t\<close>: for a text whose
  first 256 bytes are all non-zero the counter wraps from 255 to 0 before it reaches
  the terminator and the loop starts again at the first byte. Nothing in the driver or
  its header limits the length of the text. With 256 letters and then the terminator,
  on a device that acknowledges at once, the start returns, and \<open>print\<close> never does:
  the characters are written again and again and no stop is issued.
\<close>

theorem print_long_text_never_stops:
  "length long_text = 257
   \<and> long_text ! 256 = 0
   \<and> 0 \<notin> set (take 256 long_text)
   \<and> I2C_startWait ideal_bus 0x4E power_on \<noteq> None
   \<and> I2C_LCD_print ideal_bus long_text power_on = None"
proof -
  have len: "length long_text = 257" and nul: "long_text ! 256 = 0"
    and body: "0 \<notin> set (take 256 long_text)"
    by (simp_all add: long_text_def nth_append)
  have "\<exists>m\<ge>attempts power_on. start_ack ideal_bus m"
    by (auto simp: ideal_bus_def)
  from startWait_returns[OF this, of "0x4E"] obtain n where
    start: "I2C_startWait ideal_bus 0x4E power_on =
       Some (True, power_on\<lparr>trace := trace power_on @ [StartWait 0x4E], attempts := n\<rparr>)"
    by blast
  have long: "256 \<le> length long_text \<and> (\<forall>j<256. long_text ! j \<noteq> 0)"
    by (simp add: long_text_def nth_append)
  have "I2C_LCD_print_loop ideal_bus long_text 0 v = None" for v
  proof (cases "I2C_LCD_print_loop ideal_bus long_text 0 v")
    case None
    then show ?thesis .
  next
    case (Some r)
    from print_loop_never[OF this] long show ?thesis
      by simp
  qed
  with start have "I2C_LCD_print ideal_bus long_text power_on = None"
    by (simp add: I2C_LCD_print_def)
  with len nul body start show ?thesis
    by simp
qed

subsection \<open>Cursor addressing\<close>

lemma ddram_command:
  fixes c off :: u8
  shows "word_of_int (uint (0x80 :: u8) OR ((uint c - 1) + uint off)) = (0x80 OR ((c - 1) + off) :: u8)"
proof -
  have "(word_of_int (uint (0x80 :: u8) OR ((uint c - 1) + uint off)) :: u8)
          = word_of_int (uint (0x80 :: u8)) OR word_of_int ((uint c - 1) + uint off)"
    by (rule word_wi_log_defs(3)[symmetric])
  also have "word_of_int ((uint c - 1) + uint off) = (c - 1) + off"
    by (simp only: wi_hom_add[symmetric] wi_hom_sub[symmetric] word_of_int_uint word_1_wi[symmetric])
  finally show ?thesis
    by simp
qed

lemma clamp_above: "(if b \<le> a then b else a) = min a (b :: u8)"
  by (auto simp: min_def)

lemma setCursorWOI2C_eq:
  "I2C_LCD_setCursorWOI2C env col row w =
     (case arr4_get (row_offsets w) (uint (min row (numlines w)) - 1) of
        Inl f \<Rightarrow> Inl f
      | Inr off \<Rightarrow>
          Inr (w\<lparr>trace := trace w @
                 command_nibbles (backlight w) (0x80 OR ((min col (numcols w) - 1) + off))\<rparr>))"
  unfolding I2C_LCD_setCursorWOI2C_def Let_def clamp_above ddram_command command4bit_eq ..

lemma setCursor_eq:
  "I2C_LCD_setCursor env col row w =
     (case I2C_startWait_loop (start_ack env) (attempts w) of
        None \<Rightarrow> None
      | Some k \<Rightarrow>
          (case arr4_get (row_offsets w) (uint (min row (numlines w)) - 1) of
             Inl f \<Rightarrow> Some (Inl f)
           | Inr off \<Rightarrow>
               Some (Inr (w\<lparr>trace := trace w @ [StartWait 0x4E]
                        @ command_nibbles (backlight w)
                            (0x80 OR ((min col (numcols w) - 1) + off))
                        @ [Stop],
                      attempts := Suc k\<rparr>))))"
  by (simp add: I2C_LCD_setCursor_def I2C_startWait_def setCursorWOI2C_eq I2C_stop_def
        split: option.split sum.split)

lemma arr4_get_inside: "0 \<le> i \<Longrightarrow> i < 4 \<Longrightarrow> \<exists>off. arr4_get a i = Inr off"
  by (cases a) auto

lemma arr4_get_outside: "i < 0 \<or> 4 \<le> i \<Longrightarrow> arr4_get a i = Inl (OutOfBounds i)"
  by (cases a) auto

lemma row_index_inside:
  fixes r :: u8
  assumes "1 \<le> r" and "r \<le> 4"
  shows "0 \<le> uint r - 1" and "uint r - 1 < 4"
  using assms by (simp_all add: word_le_def)

lemma row_index_above:
  fixes r :: u8
  assumes "4 < r"
  shows "4 \<le> uint r - 1"
  using assms by (simp add: word_less_def)


lemma setCursor_call:
  assumes "\<exists>m\<ge>attempts w. start_ack env m"
    and "1 \<le> min row (numlines w)" and "min row (numlines w) \<le> 4"
  shows "\<exists>n>attempts w. \<exists>off.
           arr4_get (row_offsets w) (uint (min row (numlines w)) - 1) = Inr off
           \<and> I2C_LCD_setCursor env col row w =
               Some (Inr (w\<lparr>trace := trace w @ [StartWait 0x4E]
                        @ command_nibbles (backlight w)
                            (0x80 OR ((min col (numcols w) - 1) + off))
                        @ [Stop],
                      attempts := n\<rparr>))"
proof -
  from assms(1) obtain m where "attempts w \<le> m" "start_ack env m"
    by blast
  from startWait_loop_returns[of "attempts w" m "start_ack env"] this obtain k where
    k: "I2C_startWait_loop (start_ack env) (attempts w) = Some k" "attempts w \<le> k"
    by blast
  from row_index_inside[OF assms(2,3)] arr4_get_inside obtain off where
    off: "arr4_get (row_offsets w) (uint (min row (numlines w)) - 1) = Inr off"
    by blast
  from k(2) show ?thesis
    by (intro exI[of _ "Suc k"] exI[of _ off]) (simp add: setCursor_eq k(1) off)
qed

lemma command_bytes:
  "command_nibbles 0xFF 0x80 =
     [Write 0x8C, Write 0x88, Delay_us 100, Write 0x0C, Write 0x08, Delay_us 100]"
  "command_nibbles 0xFF 0xFF =
     [Write 0xFC, Write 0xF8, Delay_us 100, Write 0xFC, Write 0xF8, Delay_us 100]"
  by code_simp+

text \<open>
  C3, as stated, fails in its first part: the column and the row are limited from above
  only, so a zero is not raised to 1. On a 20x4 display \<open>setCursor 0 1\<close> computes
  \<open>col-1 = -1\<close> and sends the command byte 0xFF, where the clamp into [1, 20] of the
  specification would make it \<open>setCursor 1 1\<close>, which sends 0x80.
\<close>

theorem setCursor_zero_column_not_clamped:
  "I2C_LCD_init ideal_bus 20 4 power_on = Some (after_init 20 4)
   \<and> clamp_spec 1 (numcols (after_init 20 4)) 0 = 1
   \<and> clamp_spec 1 (numlines (after_init 20 4)) 1 = 1
   \<and> I2C_LCD_setCursor ideal_bus 1 1 (after_init 20 4) =
       Some (Inr ((after_init 20 4)
         \<lparr>trace := trace (after_init 20 4) @ [StartWait 0x4E, Write 0x8C, Write 0x88, Delay_us 100,
             Write 0x0C, Write 0x08, Delay_us 100, Stop],
          attempts := 2\<rparr>))
   \<and> I2C_LCD_setCursor ideal_bus 0 1 (after_init 20 4) =
       Some (Inr ((after_init 20 4)
         \<lparr>trace := trace (after_init 20 4) @ [StartWait 0x4E, Write 0xFC, Write 0xF8, Delay_us 100,
             Write 0xFC, Write 0xF8, Delay_us 100, Stop],
          attempts := 2\<rparr>))
   \<and> I2C_LCD_setCursor ideal_bus 0 1 (after_init 20 4) \<noteq>
       I2C_LCD_setCursor ideal_bus (clamp_spec 1 (numcols (after_init 20 4)) 0)
         (clamp_spec 1 (numlines (after_init 20 4)) 1) (after_init 20 4)"
proof -
  have idx: "arr4_get (Arr4 0x00 0x40 (0x00 + 20) (0x40 + 20)) (uint (min (1 :: u8) 4) - 1) = Inr 0"
    by code_simp
  have cmd0: "(0x80 :: u8) OR ((min 0 20 - 1) + 0) = 0xFF"
    and cmd1: "(0x80 :: u8) OR ((min 1 20 - 1) + 0) = 0x80"
    by code_simp+
  have two: "Suc 1 = 2"
    by simp
  have one_one: "I2C_LCD_setCursor ideal_bus 1 1 (after_init 20 4) =
       Some (Inr ((after_init 20 4)
         \<lparr>trace := trace (after_init 20 4) @ [StartWait 0x4E] @ command_nibbles 0xFF 0x80 @ [Stop],
          attempts := 2\<rparr>))"
    unfolding setCursor_eq after_init_fields startWait_loop_ideal idx
    by (simp only: option.case sum.case cmd1 two)
  have zero_one: "I2C_LCD_setCursor ideal_bus 0 1 (after_init 20 4) =
       Some (Inr ((after_init 20 4)
         \<lparr>trace := trace (after_init 20 4) @ [StartWait 0x4E] @ command_nibbles 0xFF 0xFF @ [Stop],
          attempts := 2\<rparr>))"
    unfolding setCursor_eq after_init_fields startWait_loop_ideal idx
    by (simp only: option.case sum.case cmd0 two)
  have clamped: "clamp_spec 1 (numcols (after_init 20 4)) 0 = 1"
    "clamp_spec 1 (numlines (after_init 20 4)) 1 = 1"
    by (simp_all add: clamp_spec_def after_init_fields)
  have differ: "I2C_LCD_setCursor ideal_bus 0 1 (after_init 20 4) \<noteq>
       I2C_LCD_setCursor ideal_bus 1 1 (after_init 20 4)"
  proof
    assume "I2C_LCD_setCursor ideal_bus 0 1 (after_init 20 4) =
       I2C_LCD_setCursor ideal_bus 1 1 (after_init 20 4)"
    then have "map_option (map_sum id trace) (I2C_LCD_setCursor ideal_bus 0 1 (after_init 20 4)) =
       map_option (map_sum id trace) (I2C_LCD_setCursor ideal_bus 1 1 (after_init 20 4))"
      by simp
    then show False
      unfolding one_one zero_one command_bytes by simp
  qed
  show ?thesis
    unfolding clamped using init_power_on[of 20 4] one_one zero_one differ
    by (simp add: command_bytes)
qed

text \<open>
  C3, amended. \<open>setCursor col row\<close> replaces \<open>col\<close> by \<open>numcols\<close> when it is
  at least \<open>numcols\<close> and \<open>row\<close> by \<open>numlines\<close> when it is at least \<open>numlines\<close>
  (values above the maximum go down to the maximum; they are neither wrapped nor
  rejected; there is no limit from below). When the limited row is between 1 and 4,
  and the device acknowledges some start condition, it returns without fault and has
  sent, inside one \<open>startWait\<close>/stop bracket, the single command
  \<open>SETDDRAMADDR | ((col-1) + row_offsets[row-1])\<close> for the limited \<open>col\<close> and
  \<open>row\<close>, changing no driver variable. For \<open>col\<close> and \<open>row\<close> within the stored
  geometry the limited values are \<open>col\<close> and \<open>row\<close> themselves. After an
  \<open>init\<close> with 20 columns the row offsets are 0x00, 0x40, 0x14, 0x54, and on a 20x4
  display \<open>setCursor 99 99\<close> behaves as \<open>setCursor 20 4\<close>.
\<close>

theorem setCursor_clamps_above:
  assumes "\<exists>m\<ge>attempts w. start_ack env m"
    and "1 \<le> min row (numlines w)" and "min row (numlines w) \<le> 4"
  shows "(\<exists>w' off.
            arr4_get (row_offsets w) (uint (min row (numlines w)) - 1) = Inr off
            \<and> I2C_LCD_setCursor env col row w = Some (Inr w')
            \<and> trace w' = trace w @ [StartWait 0x4E]
                  @ command_nibbles (backlight w)
                      (0x80 OR ((min col (numcols w) - 1) + off))
                  @ [Stop]
            \<and> globals w' = globals w)
       \<and> (col \<le> numcols w \<longrightarrow> min col (numcols w) = col)
       \<and> (row \<le> numlines w \<longrightarrow> min row (numlines w) = row)
       \<and> (I2C_LCD_init env' 20 lines v = Some v' \<longrightarrow>
            row_offsets v' = Arr4 0x00 0x40 0x14 0x54)
       \<and> (numcols w = 20 \<and> numlines w = 4 \<longrightarrow>
            I2C_LCD_setCursor env 99 99 w = I2C_LCD_setCursor env 20 4 w)"
proof -
  from setCursor_call[OF assms, of col] have sent: "\<exists>w' off.
            arr4_get (row_offsets w) (uint (min row (numlines w)) - 1) = Inr off
            \<and> I2C_LCD_setCursor env col row w = Some (Inr w')
            \<and> trace w' = trace w @ [StartWait 0x4E]
                  @ command_nibbles (backlight w)
                      (0x80 OR ((min col (numcols w) - 1) + off))
                  @ [Stop]
            \<and> globals w' = globals w"
    by (fastforce simp: globals_def)
  have offsets: "I2C_LCD_init env' 20 lines v = Some v' \<longrightarrow>
            row_offsets v' = Arr4 0x00 0x40 0x14 0x54"
    using init_Some(3)[of env' 20 lines v v'] by simp
  have beyond: "numcols w = 20 \<and> numlines w = 4 \<longrightarrow>
            I2C_LCD_setCursor env 99 99 w = I2C_LCD_setCursor env 20 4 w"
  proof (intro impI, elim conjE)
    assume geometry: "numcols w = 20" "numlines w = 4"
    have "min (99 :: u8) 20 = 20" "min (20 :: u8) 20 = 20"
      "min (99 :: u8) 4 = 4" "min (4 :: u8) 4 = 4"
      by simp_all
    then show "I2C_LCD_setCursor env 99 99 w = I2C_LCD_setCursor env 20 4 w"
      unfolding setCursor_eq geometry by (simp only:)
  qed
  from sent offsets beyond show ?thesis
    by simp
qed

theorem setCursor_clamps_above_witness:
  "(\<exists>m\<ge>attempts (after_init 20 4). start_ack ideal_bus m)
   \<and> 1 \<le> min 3 (numlines (after_init 20 4))
   \<and> min 3 (numlines (after_init 20 4)) \<le> 4
   \<and> 5 \<le> numcols (after_init 20 4)
   \<and> 3 \<le> numlines (after_init 20 4)
   \<and> I2C_LCD_init ideal_bus 20 4 power_on = Some (after_init 20 4)
   \<and> row_offsets (after_init 20 4) = Arr4 0x00 0x40 0x14 0x54
   \<and> numcols (after_init 20 4) = 20
   \<and> numlines (after_init 20 4) = 4
   \<and> (\<exists>w'. I2C_LCD_setCursor ideal_bus 5 3 (after_init 20 4) = Some (Inr w')
          \<and> trace w' = trace (after_init 20 4) @
               [StartWait 0x4E, Write 0x9C, Write 0x98, Delay_us 100,
                Write 0x8C, Write 0x88, Delay_us 100, Stop])
   \<and> I2C_LCD_setCursor ideal_bus 99 99 (after_init 20 4) =
       I2C_LCD_setCursor ideal_bus 20 4 (after_init 20 4)"
proof -
  have ack: "\<exists>m\<ge>attempts (after_init 20 4). start_ack ideal_bus m"
    by (auto simp: ideal_bus_def)
  have r1: "1 \<le> min 3 (numlines (after_init 20 4))"
    and r2: "min 3 (numlines (after_init 20 4)) \<le> 4"
    by (simp_all add: after_init_def)
  from setCursor_clamps_above[OF ack r1 r2, of 5 ideal_bus 4 power_on "after_init 20 4"]
    init_power_on[of 20 4] ack
  show ?thesis
    by (clarsimp simp add: after_init_def command_nibbles_def strobe_def)
qed

subsection \<open>The row subscript\<close>

lemma print_loop_numlines:
  assumes "I2C_LCD_print_loop env c i w = Some r"
  shows "\<forall>w'. r = Inr w' \<longrightarrow> numlines w' = numlines w"
proof (rule I2C_LCD_print_loop.raw_induct
         [where P = "\<lambda>env c i w r. \<forall>w'. r = Inr w' \<longrightarrow> numlines w' = numlines w",
          OF _ assms], goal_cases)
  case (1 loop env c i w r)
  show ?case
  proof (cases "unat i < length c \<and> c ! unat i \<noteq> 0")
    case True
    with 1(2) have "loop env c (i + 1) (I2C_LCD_write env (c ! unat i) w) = Some r"
      by simp
    from 1(1)[OF this] show ?thesis
      by (simp add: write_eq)
  next
    case False
    with 1(2) show ?thesis
      by (auto split: if_splits)
  qed
qed

lemma createChar_loop_numlines:
  "I2C_LCD_createChar_loop env charmap i w = Inr w' \<Longrightarrow> numlines w' = numlines w"
proof (induction env charmap i w rule: I2C_LCD_createChar_loop.induct)
  case (1 env charmap i w)
  show ?case
  proof (cases "i < 8 \<and> unat i < length charmap")
    case True
    with "1.prems" have "I2C_LCD_createChar_loop env charmap (i + 1)
                           (I2C_LCD_write env (charmap ! unat i AND 0x1F) w) = Inr w'"
      by (subst (asm) I2C_LCD_createChar_loop.simps) simp
    with "1.IH" True show ?thesis
      by (simp add: write_eq)
  next
    case False
    with "1.prems" show ?thesis
      by (subst (asm) I2C_LCD_createChar_loop.simps) (auto split: if_splits)
  qed
qed

lemma run_numlines:
  assumes "\<forall>cols lines. c \<noteq> Init cols lines" and "run env c w = Some (Inr w')"
  shows "numlines w' = numlines w"
proof (cases c)
  case (Init cols lines)
  with assms(1) show ?thesis
    by simp
next
  case Clear
  with assms(2) show ?thesis
    by (auto simp: I2C_LCD_clear_def I2C_startWait_def command4bit_eq I2C_stop_def
          split: option.splits)
next
  case Home
  with assms(2) show ?thesis
    by (auto simp: I2C_LCD_home_def setCursor_eq split: option.splits sum.splits)
next
  case (SetCursor col row)
  with assms(2) show ?thesis
    by (auto simp: setCursor_eq split: option.splits sum.splits)
next
  case (SetCursorWOI2C col row)
  with assms(2) show ?thesis
    by (auto simp: setCursorWOI2C_eq split: sum.splits)
next
  case (Print chars)
  with assms(2) show ?thesis
    by (auto simp: I2C_LCD_print_def I2C_startWait_def I2C_stop_def
          split: option.splits sum.splits dest!: print_loop_numlines)
next
  case (PrintChar ch)
  with assms(2) show ?thesis
    by (auto simp: I2C_LCD_printChar_def I2C_startWait_def write_eq I2C_stop_def
          split: option.splits)
next
  case (Display state)
  with assms(2) show ?thesis
    by (auto simp: I2C_LCD_display_def Let_def I2C_startWait_def command4bit_eq I2C_stop_def
          split: option.splits)
next
  case (Backlight state)
  with assms(2) show ?thesis
    by (auto simp: I2C_LCD_backlight_def Let_def I2C_startWait_def command4bit_eq I2C_stop_def
          split: option.splits)
next
  case (Blink state)
  with assms(2) show ?thesis
    by (auto simp: I2C_LCD_blink_def Let_def I2C_startWait_def command4bit_eq I2C_stop_def
          split: option.splits)
next
  case (Cursor state)
  with assms(2) show ?thesis
    by (auto simp: I2C_LCD_cursor_def Let_def I2C_startWait_def command4bit_eq I2C_stop_def
          split: option.splits)
next
  case LeftToRight
  with assms(2) show ?thesis
    by (auto simp: I2C_LCD_leftToRight_def Let_def I2C_startWait_def command4bit_eq I2C_stop_def
          split: option.splits)
next
  case RightToLeft
  with assms(2) show ?thesis
    by (auto simp: I2C_LCD_rightToLeft_def Let_def I2C_startWait_def command4bit_eq I2C_stop_def
          split: option.splits)
next
  case ScrollDisplayLeft
  with assms(2) show ?thesis
    by (auto simp: I2C_LCD_scrollDisplayLeft_def I2C_startWait_def command4bit_eq I2C_stop_def
          split: option.splits)
next
  case ScrollDisplayRight
  with assms(2) show ?thesis
    by (auto simp: I2C_LCD_scrollDisplayRight_def I2C_startWait_def command4bit_eq I2C_stop_def
          split: option.splits)
next
  case (CursorFixPosition state)
  with assms(2) show ?thesis
    by (auto simp: I2C_LCD_cursorFixPosition_def Let_def I2C_startWait_def command4bit_eq
          I2C_stop_def split: option.splits)
next
  case (CreateChar location charmap)
  with assms(2) show ?thesis
    by (auto simp: I2C_LCD_createChar_def Let_def I2C_startWait_def command4bit_eq I2C_stop_def
          split: option.splits sum.splits dest!: createChar_loop_numlines)
next
  case (WriteData ch)
  with assms(2) show ?thesis
    by (auto simp: write_eq)
next
  case (Command4bit cmd)
  with assms(2) show ?thesis
    by (auto simp: command4bit_eq)
next
  case (Command8bit cmd)
  with assms(2) show ?thesis
    by (auto simp: command8bit_eq)
next
  case (SetRowOffsets r1 r2 r3 r4)
  with assms(2) show ?thesis
    by (auto simp: I2C_LCD_setRowOffsets_def)
next
  case (Push b)
  with assms(2) show ?thesis
    by (auto simp: push_eq)
qed

text \<open>
  C10, as stated, fails: a \<open>lines\<close> argument of at most 4 includes 0. After
  \<open>init 20 0\<close> the stored \<open>numlines\<close> is 0, every \<open>row\<close> is at least \<open>numlines\<close>
  and is replaced by 0, and the subscript \<open>row-1\<close> is \<open>-1\<close>: \<open>setCursor 1 1\<close>
  reads outside the array although \<open>row\<close> is 1.
\<close>

theorem row_index_after_init_without_lines:
  "I2C_LCD_init ideal_bus 20 0 power_on = Some (after_init 20 0)
   \<and> (0 :: u8) \<le> 4
   \<and> (1 :: u8) \<le> 1
   \<and> I2C_LCD_setCursorWOI2C ideal_bus 1 1 (after_init 20 0) = Inl (OutOfBounds (- 1))
   \<and> I2C_LCD_setCursor ideal_bus 1 1 (after_init 20 0) = Some (Inl (OutOfBounds (- 1)))"
proof -
  have idx: "uint (min (1 :: u8) 0) - 1 = - 1"
    by simp
  have "I2C_LCD_setCursorWOI2C ideal_bus 1 1 (after_init 20 0) = Inl (OutOfBounds (- 1))"
    unfolding setCursorWOI2C_eq after_init_fields idx
    by (simp add: arr4_get_outside)
  moreover have "I2C_LCD_setCursor ideal_bus 1 1 (after_init 20 0) =
      Some (Inl (OutOfBounds (- 1)))"
    unfolding setCursor_eq after_init_fields idx startWait_loop_ideal
    by (simp add: arr4_get_outside)
  ultimately show ?thesis
    using init_power_on[of 20 0] by simp
qed

text \<open>
  C10, amended. In \<open>setCursorWOI2C\<close> (and hence \<open>setCursor\<close>) the array
  \<open>row_offsets\<close> is read at \<open>row-1\<close> after \<open>row\<close> has been limited from above only,
  to \<open>numlines\<close>. \<open>init\<close> stores its \<open>lines\<close> argument in \<open>numlines\<close> as it is,
  without validating it, and no other function of the driver changes \<open>numlines\<close>; so
  the statement is about every state whose \<open>numlines\<close> is \<open>lines\<close>, whatever was
  called since the \<open>init\<close>. When \<open>lines\<close> is between 1 and 4, every call with \<open>row\<close>
  at least 1 reads inside the four-element array and does not fault. The precondition
  is necessary: for \<open>row = 0\<close> the subscript is \<open>-1\<close> (it is an \<open>int\<close> expression,
  so it does not wrap to 255), with \<open>lines = 0\<close> every call reads at \<open>-1\<close>, and with
  \<open>lines > 4\<close> a row above 4 reads past the array.
\<close>

theorem row_index_needs_valid_lines:
  assumes "numlines w = lines"
  shows "(I2C_LCD_init env cols lines v = Some v' \<longrightarrow> numlines v' = lines)
       \<and> ((\<forall>cols' lines'. c \<noteq> Init cols' lines') \<and> run env c w = Some (Inr w')
            \<longrightarrow> numlines w' = lines)
       \<and> (1 \<le> lines \<and> lines \<le> 4 \<and> 1 \<le> row \<longrightarrow>
            0 \<le> uint (min row lines) - 1 \<and> uint (min row lines) - 1 < 4
            \<and> (\<exists>w'. I2C_LCD_setCursorWOI2C env' col row w = Inr w'))
       \<and> I2C_LCD_setCursorWOI2C env' col 0 w = Inl (OutOfBounds (- 1))
       \<and> (lines = 0 \<longrightarrow> I2C_LCD_setCursorWOI2C env' col row w = Inl (OutOfBounds (- 1)))
       \<and> (4 < lines \<and> 4 < row \<longrightarrow>
            4 \<le> uint (min row lines) - 1
            \<and> I2C_LCD_setCursorWOI2C env' col row w =
                Inl (OutOfBounds (uint (min row lines) - 1)))
       \<and> (I2C_LCD_setCursor env' col 0 w = None
            \<or> I2C_LCD_setCursor env' col 0 w = Some (Inl (OutOfBounds (- 1))))"
proof -
  note stored = assms
  have init_stores: "I2C_LCD_init env cols lines v = Some v' \<longrightarrow> numlines v' = lines"
    using init_Some(1)[of env cols lines v v'] by blast
  have kept: "(\<forall>cols' lines'. c \<noteq> Init cols' lines') \<and> run env c w = Some (Inr w')
            \<longrightarrow> numlines w' = lines"
    using run_numlines[of c env w w'] assms by blast
  have inside: "1 \<le> lines \<and> lines \<le> 4 \<and> 1 \<le> row \<longrightarrow>
            0 \<le> uint (min row lines) - 1 \<and> uint (min row lines) - 1 < 4
            \<and> (\<exists>w'. I2C_LCD_setCursorWOI2C env' col row w = Inr w')"
  proof (intro impI, elim conjE)
    assume "1 \<le> lines" "lines \<le> 4" "1 \<le> row"
    then have r: "1 \<le> min row lines" "min row lines \<le> 4"
      by (simp_all add: min_le_iff_disj)
    from row_index_inside[OF r] have i: "0 \<le> uint (min row lines) - 1"
      "uint (min row lines) - 1 < 4"
      by simp_all
    from arr4_get_inside[OF i, of "row_offsets w"] obtain off where
      "arr4_get (row_offsets w) (uint (min row lines) - 1) = Inr off"
      by blast
    then have "\<exists>w'. I2C_LCD_setCursorWOI2C env' col row w = Inr w'"
      by (simp add: setCursorWOI2C_eq stored)
    with i show "0 \<le> uint (min row lines) - 1 \<and> uint (min row lines) - 1 < 4
            \<and> (\<exists>w'. I2C_LCD_setCursorWOI2C env' col row w = Inr w')"
      by simp
  qed
  have zero_index: "uint (min (0 :: u8) lines) - 1 = - 1"
    by simp
  have zero_row: "I2C_LCD_setCursorWOI2C env' col 0 w = Inl (OutOfBounds (- 1))"
    unfolding setCursorWOI2C_eq stored zero_index
    by (simp add: arr4_get_outside)
  have zero_lines: "lines = 0 \<longrightarrow>
      I2C_LCD_setCursorWOI2C env' col row w = Inl (OutOfBounds (- 1))"
  proof
    assume "lines = 0"
    then have "uint (min row lines) - 1 = - 1"
      by simp
    then show "I2C_LCD_setCursorWOI2C env' col row w = Inl (OutOfBounds (- 1))"
      unfolding setCursorWOI2C_eq stored
      by (simp add: arr4_get_outside)
  qed
  have above: "4 < lines \<and> 4 < row \<longrightarrow>
            4 \<le> uint (min row lines) - 1
            \<and> I2C_LCD_setCursorWOI2C env' col row w =
                Inl (OutOfBounds (uint (min row lines) - 1))"
  proof (intro impI, elim conjE)
    assume "4 < lines" "4 < row"
    then have "4 < min row lines"
      by simp
    from row_index_above[OF this] have i: "4 \<le> uint (min row lines) - 1" .
    then have "I2C_LCD_setCursorWOI2C env' col row w =
                Inl (OutOfBounds (uint (min row lines) - 1))"
      unfolding setCursorWOI2C_eq stored
      by (simp add: arr4_get_outside)
    with i show "4 \<le> uint (min row lines) - 1
            \<and> I2C_LCD_setCursorWOI2C env' col row w =
                Inl (OutOfBounds (uint (min row lines) - 1))"
      by simp
  qed
  have bracket: "I2C_LCD_setCursor env' col 0 w = None
            \<or> I2C_LCD_setCursor env' col 0 w = Some (Inl (OutOfBounds (- 1)))"
    unfolding setCursor_eq stored zero_index
    by (simp add: arr4_get_outside split: option.split)
  from init_stores kept inside zero_row zero_lines above bracket show ?thesis
    by blast
qed

theorem row_index_needs_valid_lines_witness:
  "I2C_LCD_init ideal_bus 20 4 power_on = Some (after_init 20 4)
   \<and> numlines (after_init 20 4) = 4
   \<and> (1 :: u8) \<le> 4 \<and> (4 :: u8) \<le> 4 \<and> (1 :: u8) \<le> 3
   \<and> 0 \<le> uint (min (3 :: u8) 4) - 1 \<and> uint (min (3 :: u8) 4) - 1 < 4
   \<and> (\<exists>w'. I2C_LCD_setCursorWOI2C ideal_bus 5 3 (after_init 20 4) = Inr w')
   \<and> I2C_LCD_setCursorWOI2C ideal_bus 5 0 (after_init 20 4) = Inl (OutOfBounds (- 1))
   \<and> (\<exists>w1. run ideal_bus (SetCursor 1 1) (after_init 20 4) = Some (Inr w1)
          \<and> numlines w1 = 4
          \<and> (\<exists>w2. I2C_LCD_setCursorWOI2C ideal_bus 5 3 w1 = Inr w2))
   \<and> I2C_LCD_init ideal_bus 20 0 power_on = Some (after_init 20 0)
   \<and> I2C_LCD_setCursorWOI2C ideal_bus 5 3 (after_init 20 0) = Inl (OutOfBounds (- 1))
   \<and> I2C_LCD_init ideal_bus 20 6 power_on = Some (after_init 20 6)
   \<and> (4 :: u8) < 6 \<and> (4 :: u8) < 5
   \<and> I2C_LCD_setCursorWOI2C ideal_bus 5 5 (after_init 20 6) = Inl (OutOfBounds 4)"
proof -
  have l4: "numlines (after_init 20 4) = 4" and l0: "numlines (after_init 20 0) = 0"
    and l6: "numlines (after_init 20 6) = 6"
    by (simp_all add: after_init_fields)
  have ack: "\<exists>m\<ge>attempts (after_init 20 4). start_ack ideal_bus m"
    by (auto simp: ideal_bus_def)
  have "1 \<le> min 1 (numlines (after_init 20 4))" "min 1 (numlines (after_init 20 4)) \<le> 4"
    by (simp_all add: l4)
  from setCursor_call[OF ack this, of 1] obtain w1 where
    w1: "run ideal_bus (SetCursor 1 1) (after_init 20 4) = Some (Inr w1)"
    by auto
  have "\<forall>cols' lines'. SetCursor 1 1 \<noteq> Init cols' lines'"
    by simp
  with row_index_needs_valid_lines[OF l4, where c = "SetCursor 1 1" and env = ideal_bus and w' = w1] w1
  have kept: "numlines w1 = 4"
    by blast
  from row_index_needs_valid_lines[OF kept, where row = 3 and env' = ideal_bus and col = 5]
  have again: "\<exists>w2. I2C_LCD_setCursorWOI2C ideal_bus 5 3 w1 = Inr w2"
    by simp
  from w1 kept again have later:
    "\<exists>w1. run ideal_bus (SetCursor 1 1) (after_init 20 4) = Some (Inr w1)
          \<and> numlines w1 = 4
          \<and> (\<exists>w2. I2C_LCD_setCursorWOI2C ideal_bus 5 3 w1 = Inr w2)"
    by blast
  have "uint (min (5 :: u8) 6) - 1 = 4"
    by simp
  with row_index_needs_valid_lines[OF l4, where row = 3 and env' = ideal_bus and col = 5]
    row_index_needs_valid_lines[OF l0, where row = 3 and env' = ideal_bus and col = 5]
    row_index_needs_valid_lines[OF l6, where row = 5 and env' = ideal_bus and col = 5]
    init_power_on[of 20 4] init_power_on[of 20 0] init_power_on[of 20 6] l4 later
  show ?thesis
    by simp
qed

subsection \<open>Statuses of the bus\<close>

lemma startWait_env:
  assumes "start_ack env1 = start_ack env2"
  shows "I2C_startWait env1 a w = I2C_startWait env2 a w"
  by (simp add: I2C_startWait_def assms)

lemma write_env: "I2C_LCD_write env1 c w = I2C_LCD_write env2 c w"
  by (simp add: write_eq)

lemma createChar_loop_env:
  "I2C_LCD_createChar_loop env1 charmap i w = I2C_LCD_createChar_loop env2 charmap i w"
proof (induction env1 charmap i w rule: I2C_LCD_createChar_loop.induct)
  case (1 env1 charmap i w)
  show ?case
  proof (cases "i < 8 \<and> unat i < length charmap")
    case True
    with "1.IH" have "I2C_LCD_createChar_loop env1 charmap (i + 1)
                        (I2C_LCD_write env1 (charmap ! unat i AND 0x1F) w) =
                      I2C_LCD_createChar_loop env2 charmap (i + 1)
                        (I2C_LCD_write env1 (charmap ! unat i AND 0x1F) w)"
      by simp
    with True show ?thesis
      by (subst (1 2) I2C_LCD_createChar_loop.simps)
         (simp add: write_env[of env1 _ _ env2])
  next
    case False
    then show ?thesis
      by (subst (1 2) I2C_LCD_createChar_loop.simps) auto
  qed
qed

lemma print_loop_env_Some:
  assumes "I2C_LCD_print_loop env1 c i w = Some r"
  shows "I2C_LCD_print_loop env2 c i w = Some r"
proof (rule I2C_LCD_print_loop.raw_induct
         [where P = "\<lambda>env c i w r. I2C_LCD_print_loop env2 c i w = Some r", OF _ assms],
       goal_cases)
  case (1 loop env c i w r)
  show ?case
  proof (cases "unat i < length c \<and> c ! unat i \<noteq> 0")
    case True
    with 1(2) have "loop env c (i + 1) (I2C_LCD_write env (c ! unat i) w) = Some r"
      by simp
    from 1(1)[OF this] have "I2C_LCD_print_loop env2 c (i + 1)
                               (I2C_LCD_write env2 (c ! unat i) w) = Some r"
      by (simp add: write_env[of env _ _ env2])
    with True show ?thesis
      by (subst I2C_LCD_print_loop.simps) simp
  next
    case False
    with 1(2) show ?thesis
      by (subst I2C_LCD_print_loop.simps) (auto split: if_splits)
  qed
qed

lemma print_loop_env: "I2C_LCD_print_loop env1 c i w = I2C_LCD_print_loop env2 c i w"
proof (cases "I2C_LCD_print_loop env1 c i w")
  case (Some r)
  with print_loop_env_Some[OF Some, of env2] show ?thesis
    by simp
next
  case None
  show ?thesis
  proof (cases "I2C_LCD_print_loop env2 c i w")
    case (Some r)
    from print_loop_env_Some[OF Some, of env1] None show ?thesis
      by simp
  next
    case n2: None
    with None show ?thesis
      by simp
  qed
qed

lemma run_env:
  assumes "start_ack env1 = start_ack env2"
  shows "run env1 c w = run env2 c w"
proof (cases c)
  case (Init cols lines)
  then show ?thesis
    by (simp add: init_eq assms)
next
  case Clear
  then show ?thesis
    by (simp add: I2C_LCD_clear_def startWait_env[OF assms] command4bit_eq
          split: option.split)
next
  case Home
  then show ?thesis
    by (simp add: I2C_LCD_home_def setCursor_eq assms)
next
  case (SetCursor col row)
  then show ?thesis
    by (simp add: setCursor_eq assms)
next
  case (SetCursorWOI2C col row)
  then show ?thesis
    by (simp add: setCursorWOI2C_eq)
next
  case (Print c)
  then show ?thesis
    by (simp add: I2C_LCD_print_def startWait_env[OF assms] print_loop_env[of env1 _ _ _ env2]
          split: option.split)
next
  case (PrintChar ch)
  then show ?thesis
    by (simp add: I2C_LCD_printChar_def startWait_env[OF assms] write_eq
          split: option.split)
next
  case (Display state)
  then show ?thesis
    by (simp add: I2C_LCD_display_def Let_def startWait_env[OF assms] command4bit_eq
          split: option.split)
next
  case (Backlight state)
  then show ?thesis
    by (simp add: I2C_LCD_backlight_def Let_def startWait_env[OF assms] command4bit_eq
          split: option.split)
next
  case (Blink state)
  then show ?thesis
    by (simp add: I2C_LCD_blink_def Let_def startWait_env[OF assms] command4bit_eq
          split: option.split)
next
  case (Cursor state)
  then show ?thesis
    by (simp add: I2C_LCD_cursor_def Let_def startWait_env[OF assms] command4bit_eq
          split: option.split)
next
  case LeftToRight
  then show ?thesis
    by (simp add: I2C_LCD_leftToRight_def Let_def startWait_env[OF assms] command4bit_eq
          split: option.split)
next
  case RightToLeft
  then show ?thesis
    by (simp add: I2C_LCD_rightToLeft_def Let_def startWait_env[OF assms] command4bit_eq
          split: option.split)
next
  case ScrollDisplayLeft
  then show ?thesis
    by (simp add: I2C_LCD_scrollDisplayLeft_def startWait_env[OF assms] command4bit_eq
          split: option.split)
next
  case ScrollDisplayRight
  then show ?thesis
    by (simp add: I2C_LCD_scrollDisplayRight_def startWait_env[OF assms] command4bit_eq
          split: option.split)
next
  case (CursorFixPosition state)
  then show ?thesis
    by (simp add: I2C_LCD_cursorFixPosition_def Let_def startWait_env[OF assms] command4bit_eq
          split: option.split)
next
  case (CreateChar location charmap)
  then show ?thesis
    by (simp add: I2C_LCD_createChar_def Let_def startWait_env[OF assms] command4bit_eq
          createChar_loop_env[of env1 _ _ _ env2] split: option.split)
next
  case (WriteData ch)
  then show ?thesis
    by (simp add: write_eq)
next
  case (Command4bit cmd)
  then show ?thesis
    by (simp add: command4bit_eq)
next
  case (Command8bit cmd)
  then show ?thesis
    by (simp add: command8bit_eq)
next
  case (SetRowOffsets r1 r2 r3 r4)
  then show ?thesis
    by simp
next
  case (Push b)
  then show ?thesis
    by (simp add: push_eq)
qed


lemma startWait_None_iff:
  "(I2C_startWait env a w = None) = (\<forall>m\<ge>attempts w. \<not> start_ack env m)"
proof
  assume blocked: "I2C_startWait env a w = None"
  show "\<forall>m\<ge>attempts w. \<not> start_ack env m"
  proof (intro allI impI notI)
    fix m
    assume "attempts w \<le> m" "start_ack env m"
    then have "\<exists>m\<ge>attempts w. start_ack env m"
      by blast
    from startWait_returns[OF this, of a] blocked show False
      by auto
  qed
next
  assume "\<forall>m\<ge>attempts w. \<not> start_ack env m"
  then show "I2C_startWait env a w = None"
    by (rule startWait_blocks)
qed

lemma startWait_Some:
  assumes "I2C_startWait env a w = Some (ok, w')"
  shows "ok" and "w' = w\<lparr>trace := trace w @ [StartWait a], attempts := attempts w'\<rparr>"
    and "attempts w < attempts w'" and "start_ack env (attempts w' - 1)"
    and "\<forall>j. attempts w \<le> j \<and> j < attempts w' - 1 \<longrightarrow> \<not> start_ack env j"
proof -
  from assms obtain k where k: "I2C_startWait_loop (start_ack env) (attempts w) = Some k"
    and res: "ok" "w' = w\<lparr>trace := trace w @ [StartWait a], attempts := Suc k\<rparr>"
    by (auto simp: I2C_startWait_def split: option.splits)
  from res(2) have att: "attempts w' = Suc k"
    by simp
  from startWait_loop_Some[OF k] have first: "attempts w \<le> k" "start_ack env k"
    "\<forall>j. attempts w \<le> j \<and> j < k \<longrightarrow> \<not> start_ack env j"
    by simp_all
  show "ok"
    by (rule res(1))
  show "w' = w\<lparr>trace := trace w @ [StartWait a], attempts := attempts w'\<rparr>"
    using res(2) by simp
  show "attempts w < attempts w'"
    using first(1) att by simp
  show "start_ack env (attempts w' - 1)"
    using first(2) att by simp
  show "\<forall>j. attempts w \<le> j \<and> j < attempts w' - 1 \<longrightarrow> \<not> start_ack env j"
    using first(3) att by simp
qed

text \<open>
  C7. For every function of the driver interface, the calls made to the bus, the
  resulting driver state and the outcome of the operation do not depend on the statuses
  that the byte writes return: two devices that acknowledge the same start conditions
  give the same result, whatever they answer to each write. Every \<open>I2C_write\<close> puts
  its byte on the bus once and hands back the device's status, which \<open>push\<close> drops;
  so no error is passed on and no write is repeated. Only \<open>I2C_startWait\<close> waits:
  it never returns exactly when the device acknowledges no start condition from the
  current one on, and when it returns it reports success after having retried up to
  the first acknowledged start condition.
\<close>

theorem write_statuses_ignored:
  assumes "start_ack env1 = start_ack env2"
  shows "run env1 c w = run env2 c w
       \<and> fst (I2C_write env1 b w) = write_status env1 (trace w) b
       \<and> snd (I2C_write env1 b w) = w\<lparr>trace := trace w @ [Write b]\<rparr>
       \<and> (I2C_startWait env1 a w = None) = (\<forall>m\<ge>attempts w. \<not> start_ack env1 m)
       \<and> (I2C_startWait env1 a w = Some (ok, w') \<longrightarrow>
             ok
             \<and> w' = w\<lparr>trace := trace w @ [StartWait a], attempts := attempts w'\<rparr>
             \<and> attempts w < attempts w'
             \<and> start_ack env1 (attempts w' - 1)
             \<and> (\<forall>j. attempts w \<le> j \<and> j < attempts w' - 1 \<longrightarrow> \<not> start_ack env1 j))"
proof -
  have status: "fst (I2C_write env1 b w) = write_status env1 (trace w) b"
    and offered: "snd (I2C_write env1 b w) = w\<lparr>trace := trace w @ [Write b]\<rparr>"
    by (simp_all add: I2C_write_def)
  have returned: "I2C_startWait env1 a w = Some (ok, w') \<longrightarrow>
             ok
             \<and> w' = w\<lparr>trace := trace w @ [StartWait a], attempts := attempts w'\<rparr>
             \<and> attempts w < attempts w'
             \<and> start_ack env1 (attempts w' - 1)
             \<and> (\<forall>j. attempts w \<le> j \<and> j < attempts w' - 1 \<longrightarrow> \<not> start_ack env1 j)"
    using startWait_Some[of env1 a w ok w'] by blast
  from run_env[OF assms, of c w] status offered startWait_None_iff[of env1 a w] returned
  show ?thesis
    by blast
qed

theorem write_statuses_ignored_witness:
  "start_ack ideal_bus = start_ack deaf_bus
   \<and> write_status ideal_bus [] 0x3C
   \<and> \<not> write_status deaf_bus [] 0x3C
   \<and> run ideal_bus (Init 20 4) power_on = Some (Inr (after_init 20 4))
   \<and> run deaf_bus (Init 20 4) power_on = Some (Inr (after_init 20 4))
   \<and> \<not> start_ack slow_bus 0 \<and> \<not> start_ack slow_bus 1 \<and> start_ack slow_bus 2
   \<and> I2C_startWait slow_bus 0x4E power_on =
       Some (True, power_on\<lparr>trace := trace power_on @ [StartWait 0x4E], attempts := 3\<rparr>)
   \<and> I2C_startWait absent_bus 0x4E power_on = None
   \<and> run absent_bus (Init 20 4) power_on = None"
proof -
  have same: "start_ack ideal_bus = start_ack deaf_bus"
    by (simp add: ideal_bus_def deaf_bus_def)
  from write_statuses_ignored[OF same, of "Init 20 4" power_on]
  have "run ideal_bus (Init 20 4) power_on = run deaf_bus (Init 20 4) power_on"
    by simp
  moreover have "run ideal_bus (Init 20 4) power_on = Some (Inr (after_init 20 4))"
    by (simp add: init_power_on)
  moreover have "I2C_startWait_loop (start_ack slow_bus) 0 = Some 2"
    by (simp add: slow_bus_def startWait_loop_nack startWait_loop_ack)
  then have "I2C_startWait slow_bus 0x4E power_on =
       Some (True, power_on\<lparr>trace := trace power_on @ [StartWait 0x4E], attempts := 3\<rparr>)"
    by (simp add: I2C_startWait_def power_on_def)
  moreover from write_statuses_ignored[OF refl, of absent_bus _ power_on _ "0x4E"]
  have silent: "I2C_startWait absent_bus 0x4E power_on = None"
    by (simp add: absent_bus_def)
  moreover from silent have "run absent_bus (Init 20 4) power_on = None"
    by (simp add: I2C_LCD_init_def Let_def I2C_startWait_def delay_ms_def
          split: option.splits)
  ultimately show ?thesis
    using same by (simp add: ideal_bus_def deaf_bus_def slow_bus_def)
qed

end
